theory Spec2Isabelle
  imports Complex_Main "HOL-Library.Sublist"
begin

section \<open>Python values the nodes compute with\<close>

text \<open>
  The orchestration code of the repository is the Python of its LangGraph
  specification document: node functions over an \<open>AgentState\<close> dictionary, the graphs
  that chain them, and the \<open>AdvancedMemoryManager\<close> class. Every call that can raise
  is a branch of the model: the result of a node is \<open>Inl\<close> of the exception or
  \<open>Inr\<close> of the configuration it returns.
\<close>

datatype py_error =
  IndexError | ValueError | NameError | AttributeError | ModelError | EmbeddingError |
  AggregationError

text \<open>
  \<open>int(agent_id)\<close> on a string: blanks around the number are dropped, then comes an
  optional sign and one or more decimal digits, where single underscores may stand
  between digits. Everything else raises \<open>ValueError\<close>. A character is a byte
  here, so the digits and blanks outside ASCII that Python also accepts are not
  covered.
\<close>

definition py_space :: "char \<Rightarrow> bool" where
  "py_space c =
     (let n = (of_char c :: nat) in (9 \<le> n \<and> n \<le> 13) \<or> (28 \<le> n \<and> n \<le> 32))"

definition py_strip :: "string \<Rightarrow> string" where
  "py_strip txt = rev (dropWhile py_space (rev (dropWhile py_space txt)))"

definition digit_of :: "char \<Rightarrow> nat option" where
  "digit_of c =
     (let n = (of_char c :: nat) in if 48 \<le> n \<and> n \<le> 57 then Some (n - 48) else None)"

fun digits_val :: "nat \<Rightarrow> string \<Rightarrow> nat option" where
  "digits_val acc [] = Some acc"
| "digits_val acc (c # cs) =
     (case digit_of c of None \<Rightarrow> None | Some d \<Rightarrow> digits_val (10 * acc + d) cs)"

text \<open>
  The underscores of a digit string are dropped when each stands between two other
  characters and no two are adjacent; \<open>after_char\<close> says whether the character
  before was not an underscore. The empty string has no value.
\<close>

fun drop_underscores :: "bool \<Rightarrow> string \<Rightarrow> string option" where
  "drop_underscores after_char [] = (if after_char then Some [] else None)"
| "drop_underscores after_char (c # cs) =
     (if c = CHR ''_'' then
        (if after_char then drop_underscores False cs else None)
      else map_option ((#) c) (drop_underscores True cs))"

definition unsigned_int :: "string \<Rightarrow> nat option" where
  "unsigned_int ds =
     (case drop_underscores False ds of None \<Rightarrow> None | Some plain \<Rightarrow> digits_val 0 plain)"

definition py_int :: "string \<Rightarrow> py_error + int" where
  "py_int txt =
     (case py_strip txt of
        [] \<Rightarrow> Inl ValueError
      | c # cs \<Rightarrow>
          if c = CHR ''-'' then
            (case unsigned_int cs of None \<Rightarrow> Inl ValueError | Some n \<Rightarrow> Inr (- int n))
          else if c = CHR ''+'' then
            (case unsigned_int cs of None \<Rightarrow> Inl ValueError | Some n \<Rightarrow> Inr (int n))
          else
            (case unsigned_int (c # cs) of
               None \<Rightarrow> Inl ValueError
             | Some n \<Rightarrow> Inr (int n)))"

text \<open>
  \<open>xs[i]\<close> on a Python list: a negative index counts from the end, and an index
  outside the list raises \<open>IndexError\<close>.
\<close>

definition py_getitem :: "'a list \<Rightarrow> int \<Rightarrow> py_error + 'a" where
  "py_getitem xs i =
     (if 0 \<le> i then
        (if nat i < length xs then Inr (xs ! nat i) else Inl IndexError)
      else
        (if nat (- i) \<le> length xs then Inr (xs ! (length xs - nat (- i))) else Inl IndexError))"

text \<open>
  A Python \<open>dict\<close> keeps its keys in insertion order: \<open>d[k] = v\<close> replaces the value
  in place when \<open>k\<close> is present and appends the pair otherwise.
\<close>

fun dict_set :: "('k \<times> 'v) list \<Rightarrow> 'k \<Rightarrow> 'v \<Rightarrow> ('k \<times> 'v) list" where
  "dict_set [] k v = [(k, v)]"
| "dict_set ((k', v') # d) k v =
     (if k' = k then (k, v) # d else (k', v') # dict_set d k v)"

definition dict_keys :: "('k \<times> 'v) list \<Rightarrow> 'k list" where
  "dict_keys d = map fst d"

definition dict_get :: "('k \<times> 'v) list \<Rightarrow> 'k \<Rightarrow> 'v option" where
  "dict_get d k = map_of d k"

section \<open>State schema and the world around it\<close>

text \<open>
  \<open>AgentState\<close>, field by field. The key \<open>context\<close> of the source is the field
  \<open>context_str\<close> here, and the keys \<open>episodic_memory\<close> and \<open>semantic_memory\<close> of the
  enhanced schema are \<open>state_episodic_memory\<close> and \<open>state_semantic_memory\<close>, because
  the memory manager has attributes of the same names.
\<close>

datatype py_value = PyStr string | PyFloat real

type_synonym py_dict = "(string \<times> py_value) list"

record agent_state =
  messages :: "string list"
  task :: string
  subtasks :: "string list"
  sub_results :: "(string \<times> string) list"
  final_result :: string
  context_str :: string
  compressed_context :: string
  step :: string
  state_episodic_memory :: "py_dict list"
  state_semantic_memory :: py_dict
  memory_metadata :: py_dict

text \<open>The initial state of the usage examples, for a given task.\<close>

definition initial_state :: "string \<Rightarrow> agent_state" where
  "initial_state t =
     \<lparr> messages = [], task = t, subtasks = [], sub_results = [], final_result = [],
       context_str = [], compressed_context = [], step = ''start'',
       state_episodic_memory = [], state_semantic_memory = [], memory_metadata = [] \<rparr>"

text \<open>
  An episode of the memory manager; the key \<open>id\<close> of the source is \<open>ep_id\<close>, and
  \<open>data\<close> is \<open>ep_data\<close>.
\<close>

record episode =
  ep_id :: nat
  timestamp :: real
  ep_data :: py_dict
  embeddings :: "real list"

record AdvancedMemoryManager =
  episodic_memory :: "episode list"
  semantic_memory :: py_dict

text \<open>
  What the nodes reach through module-level names: the prompts the language model
  has answered so far (\<open>llm_calls\<close>, oldest first), the records saved into
  \<open>long_term_memory\<close> (the saved context with its compression), the global
  \<open>memory_manager\<close>, and how often \<open>time.time()\<close> has been read.
\<close>

record world =
  llm_calls :: "string list"
  long_term_memory :: "(string \<times> string) list"
  memory_manager :: AdvancedMemoryManager
  clock_reads :: nat

type_synonym config = "world \<times> agent_state"

type_synonym node = "config \<Rightarrow> py_error + config"

text \<open>
  The language model is outside the repository. Its chains carry conversation
  memory, so a reply may depend on the prompts answered before as well as on the
  prompt: \<open>llm history prompt\<close> is the reply, or the exception the call raises.
\<close>

type_synonym llm_port = "string list \<Rightarrow> string \<Rightarrow> py_error + string"

definition chain_run :: "llm_port \<Rightarrow> string \<Rightarrow> world \<Rightarrow> py_error + (string \<times> world)" where
  "chain_run llm prompt w =
     (case llm (llm_calls w) prompt of
        Inl e \<Rightarrow> Inl e
      | Inr reply \<Rightarrow> Inr (reply, w\<lparr>llm_calls := llm_calls w @ [prompt]\<rparr>))"

section \<open>Running a linear graph\<close>

text \<open>
  The sequential graphs are paths: an entry point and one edge out of every node up
  to \<open>END\<close>. A compiled graph is the list of its nodes in edge order, and \<open>invoke\<close>
  runs them one after the other; an exception in a node ends the run.
\<close>

fun invoke :: "node list \<Rightarrow> config \<Rightarrow> py_error + config" where
  "invoke [] c = Inr c"
| "invoke (n # ns) c = (case n c of Inl e \<Rightarrow> Inl e | Inr c' \<Rightarrow> invoke ns c')"

section \<open>Results against the plan\<close>

text \<open>
  Subtasks carry no id of their own: an agent id \<open>k\<close> stands for the subtask at index
  \<open>int(k) - 1\<close>. A key of the results is the id of a planned subtask when it reads as
  a position from 1 to the number of subtasks; the subtask at index \<open>i\<close> is recorded
  when some key reads as \<open>i + 1\<close>. The results match the plan when no key is extra and
  no subtask is missing.
\<close>

definition planned_id :: "string list \<Rightarrow> string \<Rightarrow> bool" where
  "planned_id subs k =
     (case py_int k of Inl e \<Rightarrow> False | Inr n \<Rightarrow> 1 \<le> n \<and> n \<le> int (length subs))"

definition subtask_recorded :: "(string \<times> string) list \<Rightarrow> nat \<Rightarrow> bool" where
  "subtask_recorded d i = list_ex (\<lambda>k. py_int k = Inr (int i + 1)) (dict_keys d)"

definition no_extra_key :: "string list \<Rightarrow> (string \<times> string) list \<Rightarrow> bool" where
  "no_extra_key subs d = list_all (planned_id subs) (dict_keys d)"

definition no_missing_subtask :: "string list \<Rightarrow> (string \<times> string) list \<Rightarrow> bool" where
  "no_missing_subtask subs d = list_all (subtask_recorded d) [0..<length subs]"

definition results_match_plan :: "string list \<Rightarrow> (string \<times> string) list \<Rightarrow> bool" where
  "results_match_plan subs d = (no_extra_key subs d \<and> no_missing_subtask subs d)"

section \<open>Pattern 3: sequential agents\<close>

definition nl :: string where
  "nl = [CHR 0x0A]"

definition indent :: string where
  "indent = replicate 12 (CHR '' '')"

text \<open>The prompt template of \<open>sequential_agent_node\<close>, filled in.\<close>

definition sequential_prompt :: "string \<Rightarrow> string \<Rightarrow> string \<Rightarrow> string" where
  "sequential_prompt agent_id ctx tsk =
     nl @ indent @ ''You are Sub-agent '' @ agent_id @ ''.'' @
     nl @ indent @
     nl @ indent @ ''Previous context: '' @ ctx @
     nl @ indent @ ''Current task: '' @ tsk @
     nl @ indent @
     nl @ indent @ ''Build upon previous work and complete your task.'' @
     nl @ indent"

text \<open>The line an agent appends to the cumulative context.\<close>

definition agent_line :: "string \<Rightarrow> string \<Rightarrow> string" where
  "agent_line agent_id result = nl @ ''[Agent '' @ agent_id @ '']: '' @ result"

text \<open>
  \<open>sequential_agent_node\<close>. The arguments of \<open>context_chain.run\<close> are evaluated before
  the call, so a bad agent id or a subtask index out of range raises before the model
  is asked.
\<close>

definition sequential_agent_node :: "llm_port \<Rightarrow> string \<Rightarrow> node" where
  "sequential_agent_node llm agent_id c =
     (case c of (w, s) \<Rightarrow>
        (case py_int agent_id of
           Inl e \<Rightarrow> Inl e
         | Inr n \<Rightarrow>
             (case py_getitem (subtasks s) (n - 1) of
                Inl e \<Rightarrow> Inl e
              | Inr tsk \<Rightarrow>
                  (case chain_run llm (sequential_prompt agent_id (context_str s) tsk) w of
                     Inl e \<Rightarrow> Inl e
                   | Inr (result, w') \<Rightarrow>
                       Inr (w', s\<lparr>sub_results := dict_set (sub_results s) agent_id result,
                                 context_str := context_str s @ agent_line agent_id result\<rparr>)))))"

text \<open>
  The body of \<open>break_task_node\<close> is not in the sources. The state-management
  document describes the node: the task planner reads \<open>state.task\<close>, stores the list
  of subtasks and sets the step to \<open>planning_complete\<close>. The decomposition itself is
  a parameter (\<open>planner\<close>) and may raise.
\<close>

type_synonym planner_port = "string \<Rightarrow> py_error + string list"

definition break_task_node :: "planner_port \<Rightarrow> node" where
  "break_task_node planner c =
     (case c of (w, s) \<Rightarrow>
        (case planner (task s) of
           Inl e \<Rightarrow> Inl e
         | Inr subs \<Rightarrow> Inr (w, s\<lparr>subtasks := subs, step := ''planning_complete''\<rparr>)))"

type_synonym merger_port = "agent_state \<Rightarrow> py_error + string"

text \<open>
  Modelled from the spec: the body of \<open>merge_sequential_node\<close> is not in the sources.
  The Result Aggregator of the spec synthesises the results into the final result
  and fails with \<open>AggregationError\<close> when the results are incomplete; the
  state-management document gives the aggregator the sub-results "all completed" as
  its input, has it store \<open>final_result\<close> and set the step to \<open>completed\<close>, and its
  configuration sets \<open>require_all_subtasks\<close>. The results are incomplete when a
  planned subtask has no entry. The synthesis itself is a parameter (\<open>merger\<close>) and
  may raise.
\<close>

definition merge_sequential_node :: "merger_port \<Rightarrow> node" where
  "merge_sequential_node merger c =
     (case c of (w, s) \<Rightarrow>
        if no_missing_subtask (subtasks s) (sub_results s) then
          (case merger s of
             Inl e \<Rightarrow> Inl e
           | Inr final \<Rightarrow> Inr (w, s\<lparr>final_result := final, step := ''completed''\<rparr>))
        else Inl AggregationError)"

text \<open>
  \<open>create_sequential_reliable_graph\<close>: task breaker, agent 1, agent 2, merger.
\<close>

definition create_sequential_reliable_graph ::
    "planner_port \<Rightarrow> llm_port \<Rightarrow> merger_port \<Rightarrow> node list" where
  "create_sequential_reliable_graph planner llm merger =
     [break_task_node planner,
      sequential_agent_node llm ''1'',
      sequential_agent_node llm ''2'',
      merge_sequential_node merger]"

section \<open>Pattern 4: sequential agents with compression\<close>

text \<open>The prompt template of \<open>compress_context_node\<close>, filled in.\<close>

definition compression_prompt :: "string \<Rightarrow> string" where
  "compression_prompt ctx =
     nl @ indent @ ''Compress the following context into key insights (<200 words):'' @
     nl @ indent @
     nl @ indent @ ''Context: '' @ ctx @
     nl @ indent @
     nl @ indent @ ''Preserve: Task goals, completed work, key decisions'' @
     nl @ indent @ ''Remove: Verbose explanations, redundant information'' @
     nl @ indent"

text \<open>
  \<open>compress_context_node\<close>: one call of the model on the context; the reply becomes
  \<open>compressed_context\<close>, and the pair of context and reply is saved into
  \<open>long_term_memory\<close> (the save itself is taken to succeed). The node has no
  condition on the length of the context and no handler around the call.
\<close>

definition compress_context_node :: "llm_port \<Rightarrow> node" where
  "compress_context_node llm c =
     (case c of (w, s) \<Rightarrow>
        (case chain_run llm (compression_prompt (context_str s)) w of
           Inl e \<Rightarrow> Inl e
         | Inr (compressed, w') \<Rightarrow>
             Inr (w'\<lparr>long_term_memory := long_term_memory w' @ [(context_str s, compressed)]\<rparr>,
                  s\<lparr>compressed_context := compressed\<rparr>)))"

text \<open>
  \<open>long_term_memory.load_memory_variables(...)["relevant_context"]\<close> is a retrieval
  over the saved records by a vector store outside the repository: a parameter.
\<close>

type_synonym retriever_port = "(string \<times> string) list \<Rightarrow> string \<Rightarrow> py_error + string"

definition compressed_prompt :: "string \<Rightarrow> string \<Rightarrow> string \<Rightarrow> string \<Rightarrow> string" where
  "compressed_prompt agent_id compressed relevant tsk =
     nl @ indent @ ''You are Sub-agent '' @ agent_id @ ''.'' @
     nl @ indent @
     nl @ indent @ ''Compressed context: '' @ compressed @
     nl @ indent @ ''Relevant history: '' @ relevant @
     nl @ indent @ ''Current task: '' @ tsk @
     nl @ indent @
     nl @ indent @ ''Complete your task efficiently.'' @
     nl @ indent"

definition compressed_agent_node :: "llm_port \<Rightarrow> retriever_port \<Rightarrow> string \<Rightarrow> node" where
  "compressed_agent_node llm load_memory agent_id c =
     (case c of (w, s) \<Rightarrow>
        (case py_int agent_id of
           Inl e \<Rightarrow> Inl e
         | Inr n \<Rightarrow>
             (case py_getitem (subtasks s) (n - 1) of
                Inl e \<Rightarrow> Inl e
              | Inr tsk \<Rightarrow>
                  (case load_memory (long_term_memory w) tsk of
                     Inl e \<Rightarrow> Inl e
                   | Inr relevant \<Rightarrow>
                       (case chain_run llm
                               (compressed_prompt agent_id (compressed_context s) relevant tsk) w of
                          Inl e \<Rightarrow> Inl e
                        | Inr (result, w') \<Rightarrow>
                            Inr (w', s\<lparr>sub_results :=
                                          dict_set (sub_results s) agent_id result\<rparr>))))))"

text \<open>\<open>merge_compressed_node\<close> is the result aggregator as well.\<close>

definition merge_compressed_node :: "merger_port \<Rightarrow> node" where
  "merge_compressed_node merger = merge_sequential_node merger"

text \<open>
  \<open>create_sequential_compressed_graph\<close>: a compression node stands before agent 1,
  between the agents and after agent 2, each on an unconditional edge.
\<close>

definition create_sequential_compressed_graph ::
    "planner_port \<Rightarrow> llm_port \<Rightarrow> retriever_port \<Rightarrow> merger_port \<Rightarrow> node list" where
  "create_sequential_compressed_graph planner llm load_memory merger =
     [break_task_node planner,
      compress_context_node llm,
      compressed_agent_node llm load_memory ''1'',
      compress_context_node llm,
      compressed_agent_node llm load_memory ''2'',
      compress_context_node llm,
      merge_compressed_node merger]"

section \<open>The memory manager\<close>

text \<open>
  What the memory code calls and the sources do not define: the embedding of
  \<open>str(episode_data)\<close>, the clock (\<open>time_time n\<close> is the value of the reading number
  \<open>n\<close>), \<open>format_episodes\<close> and \<open>analyze_episodic_patterns\<close>. Two methods of the
  memory manager are parameters as well, so that every body they may be given is
  covered: \<open>retrieve_relevant_episodes\<close>, whose body in the sources is a comment
  ("Implement similarity search") followed by the return of a name that is never
  bound, and \<open>get_semantic_context\<close>, which the class does not define. What the two
  calls do as the sources stand is \<open>retrieve_as_written\<close> and
  \<open>get_semantic_context_as_written\<close> below: they raise on every call.
\<close>

record memory_ports =
  embed_data :: "py_dict \<Rightarrow> py_error + real list"
  time_time :: "nat \<Rightarrow> real"
  retrieve_relevant_episodes :: "AdvancedMemoryManager \<Rightarrow> string \<Rightarrow> nat \<Rightarrow> py_error + episode list"
  get_semantic_context :: "AdvancedMemoryManager \<Rightarrow> string \<Rightarrow> py_error + string"
  format_episodes :: "episode list \<Rightarrow> string"
  analyze_episodic_patterns :: "py_dict list \<Rightarrow> py_error + py_dict"

text \<open>
  \<open>retrieve_relevant_episodes\<close> as written: the query is embedded, which may raise,
  and then the unbound name \<open>relevant_episodes\<close> is read, which raises \<open>NameError\<close>.
\<close>

definition retrieve_as_written ::
    "(string \<Rightarrow> py_error + real list) \<Rightarrow> AdvancedMemoryManager \<Rightarrow> string \<Rightarrow> nat
       \<Rightarrow> py_error + episode list" where
  "retrieve_as_written embed_query mm query k =
     (case embed_query query of Inl e \<Rightarrow> Inl e | Inr query_embedding \<Rightarrow> Inl NameError)"

text \<open>\<open>get_semantic_context\<close> as written: the attribute does not exist.\<close>

definition get_semantic_context_as_written ::
    "AdvancedMemoryManager \<Rightarrow> string \<Rightarrow> py_error + string" where
  "get_semantic_context_as_written mm query = Inl AttributeError"

text \<open>\<open>AdvancedMemoryManager.__init__\<close>.\<close>

definition new_memory_manager :: AdvancedMemoryManager where
  "new_memory_manager = \<lparr> episodic_memory = [], semantic_memory = [] \<rparr>"

text \<open>
  \<open>add_episode\<close>: the new episode's id is the number of episodes stored, and the
  episode is appended. \<open>now\<close> is the clock reading; the embedding call may raise, and
  then nothing is stored.
\<close>

definition add_episode ::
    "(py_dict \<Rightarrow> py_error + real list) \<Rightarrow> real \<Rightarrow> AdvancedMemoryManager \<Rightarrow> py_dict
       \<Rightarrow> py_error + AdvancedMemoryManager" where
  "add_episode embedder now mm episode_data =
     (case embedder episode_data of
        Inl e \<Rightarrow> Inl e
      | Inr emb \<Rightarrow>
          Inr (mm\<lparr>episodic_memory := episodic_memory mm @
                 [\<lparr> ep_id = length (episodic_memory mm), timestamp = now,
                    ep_data = episode_data, embeddings = emb \<rparr>]\<rparr>))"

text \<open>Storing a sequence of episodes, one call of \<open>add_episode\<close> each.\<close>

fun add_episodes ::
    "(py_dict \<Rightarrow> py_error + real list) \<Rightarrow> AdvancedMemoryManager \<Rightarrow> (real \<times> py_dict) list
       \<Rightarrow> py_error + AdvancedMemoryManager" where
  "add_episodes embedder mm [] = Inr mm"
| "add_episodes embedder mm ((now, episode_data) # rest) =
     (case add_episode embedder now mm episode_data of
        Inl e \<Rightarrow> Inl e
      | Inr mm' \<Rightarrow> add_episodes embedder mm' rest)"

text \<open>\<open>update_semantic_memory\<close>: the body is \<open>pass\<close>.\<close>

definition update_semantic_memory :: "AdvancedMemoryManager \<Rightarrow> py_dict \<Rightarrow> AdvancedMemoryManager" where
  "update_semantic_memory mm knowledge = mm"

text \<open>\<open>memory_manager.add_episode(...)\<close> on the global manager, reading the clock.\<close>

definition manager_add_episode :: "memory_ports \<Rightarrow> py_dict \<Rightarrow> world \<Rightarrow> py_error + world" where
  "manager_add_episode P episode_data w =
     (case add_episode (embed_data P) (time_time P (clock_reads w)) (memory_manager w) episode_data of
        Inl e \<Rightarrow> Inl e
      | Inr mm' \<Rightarrow> Inr (w\<lparr>memory_manager := mm', clock_reads := Suc (clock_reads w)\<rparr>))"

section \<open>Pattern 3 enhanced: sequential agents with memory\<close>

definition indent4 :: string where
  "indent4 = replicate 4 (CHR '' '')"

text \<open>The context an enhanced agent builds, and its prompt.\<close>

definition enhanced_context :: "string \<Rightarrow> string \<Rightarrow> string \<Rightarrow> string" where
  "enhanced_context previous episodes_text semantic =
     nl @ indent4 @ ''Previous work: '' @ previous @
     nl @ indent4 @ ''Relevant episodes: '' @ episodes_text @
     nl @ indent4 @ ''Semantic knowledge: '' @ semantic @
     nl @ indent4"

definition enhanced_prompt :: "string \<Rightarrow> string \<Rightarrow> string \<Rightarrow> string" where
  "enhanced_prompt agent_id ctx tsk =
     nl @ indent @ ''You are Sub-agent '' @ agent_id @ ''.'' @
     nl @ indent @
     nl @ indent @ ''Context: '' @ ctx @
     nl @ indent @ ''Current task: '' @ tsk @
     nl @ indent @
     nl @ indent @ ''Build upon previous work and complete your task.'' @
     nl @ indent"

definition agent_episode_data :: "string \<Rightarrow> string \<Rightarrow> string \<Rightarrow> string \<Rightarrow> py_dict" where
  "agent_episode_data agent_id tsk result ctx =
     [(''agent_id'', PyStr agent_id), (''task'', PyStr tsk),
      (''result'', PyStr result), (''context'', PyStr ctx)]"

definition enhanced_sequential_agent_node :: "memory_ports \<Rightarrow> llm_port \<Rightarrow> string \<Rightarrow> node" where
  "enhanced_sequential_agent_node P llm agent_id c =
     (case c of (w, s) \<Rightarrow>
        (case py_int agent_id of
           Inl e \<Rightarrow> Inl e
         | Inr n \<Rightarrow>
             (case py_getitem (subtasks s) (n - 1) of
                Inl e \<Rightarrow> Inl e
              | Inr tsk \<Rightarrow>
                  (case retrieve_relevant_episodes P (memory_manager w) tsk 5 of
                     Inl e \<Rightarrow> Inl e
                   | Inr relevant_episodes \<Rightarrow>
                       (case get_semantic_context P (memory_manager w) tsk of
                          Inl e \<Rightarrow> Inl e
                        | Inr semantic_context \<Rightarrow>
                            (let ctx = enhanced_context (context_str s)
                                         (format_episodes P relevant_episodes) semantic_context
                             in case chain_run llm (enhanced_prompt agent_id ctx tsk) w of
                                  Inl e \<Rightarrow> Inl e
                                | Inr (result, w') \<Rightarrow>
                                    (case manager_add_episode P
                                            (agent_episode_data agent_id tsk result ctx) w' of
                                       Inl e \<Rightarrow> Inl e
                                     | Inr w'' \<Rightarrow>
                                         Inr (w'', s\<lparr>sub_results :=
                                                        dict_set (sub_results s) agent_id result,
                                                      context_str :=
                                                        context_str s @ agent_line agent_id result\<rparr>))))))))"

text \<open>
  \<open>consolidate_memory_node\<close>: the patterns of the state's episodic memory are handed
  to \<open>update_semantic_memory\<close>; the state is returned as it came.
\<close>

definition consolidate_memory_node :: "memory_ports \<Rightarrow> node" where
  "consolidate_memory_node P c =
     (case c of (w, s) \<Rightarrow>
        (case analyze_episodic_patterns P (state_episodic_memory s) of
           Inl e \<Rightarrow> Inl e
         | Inr patterns \<Rightarrow>
             Inr (w\<lparr>memory_manager := update_semantic_memory (memory_manager w) patterns\<rparr>, s)))"


text \<open>
  \<open>create_sequential_reliable_enhanced_graph\<close>. The bodies of
  \<open>initialize_memory_node\<close> and \<open>merge_enhanced_node\<close> are not in the sources; the first
  is a parameter, the second the result aggregator.
\<close>

definition merge_enhanced_node :: "merger_port \<Rightarrow> node" where
  "merge_enhanced_node merger = merge_sequential_node merger"

definition create_sequential_reliable_enhanced_graph ::
    "planner_port \<Rightarrow> node \<Rightarrow> memory_ports \<Rightarrow> llm_port \<Rightarrow> merger_port \<Rightarrow> node list" where
  "create_sequential_reliable_enhanced_graph planner initialize_memory_node P llm merger =
     [break_task_node planner,
      initialize_memory_node,
      enhanced_sequential_agent_node P llm ''1'',
      enhanced_sequential_agent_node P llm ''2'',
      consolidate_memory_node P,
      merge_enhanced_node merger]"

section \<open>Pattern 4 enhanced: the compression node\<close>

definition enhanced_compression_prompt :: "string \<Rightarrow> string \<Rightarrow> string" where
  "enhanced_compression_prompt ctx episodes_text =
     nl @ indent @ ''Compress the following context into key insights (<200 words):'' @
     nl @ indent @
     nl @ indent @ ''Context: '' @ ctx @
     nl @ indent @ ''Relevant episodes: '' @ episodes_text @
     nl @ indent @
     nl @ indent @ ''Preserve: Task goals, completed work, key decisions, critical insights'' @
     nl @ indent @ ''Remove: Verbose explanations, redundant information, low-priority details'' @
     nl @ indent @ ''Focus on: Patterns, learnings, and actionable insights'' @
     nl @ indent"

definition compression_episode_data :: "string \<Rightarrow> string \<Rightarrow> real \<Rightarrow> py_dict" where
  "compression_episode_data original compressed now =
     [(''type'', PyStr ''compression''), (''original_context'', PyStr original),
      (''compressed_context'', PyStr compressed), (''timestamp'', PyFloat now)]"

definition enhanced_compress_context_node :: "memory_ports \<Rightarrow> llm_port \<Rightarrow> node" where
  "enhanced_compress_context_node P llm c =
     (case c of (w, s) \<Rightarrow>
        (case retrieve_relevant_episodes P (memory_manager w) (context_str s) 3 of
           Inl e \<Rightarrow> Inl e
         | Inr relevant_episodes \<Rightarrow>
             (case chain_run llm
                     (enhanced_compression_prompt (context_str s)
                        (format_episodes P relevant_episodes)) w of
                Inl e \<Rightarrow> Inl e
              | Inr (compressed, w') \<Rightarrow>
                  (let now = time_time P (clock_reads w');
                       w2 = w'\<lparr>clock_reads := Suc (clock_reads w')\<rparr>
                   in case manager_add_episode P
                             (compression_episode_data (context_str s) compressed now) w2 of
                        Inl e \<Rightarrow> Inl e
                      | Inr w3 \<Rightarrow> Inr (w3, s\<lparr>compressed_context := compressed\<rparr>)))))"

section \<open>Pattern 1: the isolated agent node\<close>

definition sub_agent_prompt :: "string \<Rightarrow> string \<Rightarrow> string" where
  "sub_agent_prompt agent_id tsk = ''You are Sub-agent '' @ agent_id @ ''. Complete: '' @ tsk"

definition sub_agent_node :: "llm_port \<Rightarrow> string \<Rightarrow> node" where
  "sub_agent_node llm agent_id c =
     (case c of (w, s) \<Rightarrow>
        (case py_int agent_id of
           Inl e \<Rightarrow> Inl e
         | Inr n \<Rightarrow>
             (case py_getitem (subtasks s) (n - 1) of
                Inl e \<Rightarrow> Inl e
              | Inr tsk \<Rightarrow>
                  (case chain_run llm (sub_agent_prompt agent_id tsk) w of
                     Inl e \<Rightarrow> Inl e
                   | Inr (result, w') \<Rightarrow>
                       Inr (w', s\<lparr>sub_results := dict_set (sub_results s) agent_id result\<rparr>)))))"

section \<open>Sample ports\<close>

text \<open>Concrete stand-ins for the outside world, used to run the graphs on examples.\<close>

definition ok_llm :: llm_port where
  "ok_llm history prompt = Inr ''ok''"

definition plan_of :: "string list \<Rightarrow> planner_port" where
  "plan_of subs t = Inr subs"

text \<open>A synthesis that joins the recorded outputs.\<close>

definition join_merger :: merger_port where
  "join_merger s = Inr (concat (map snd (sub_results s)))"

definition no_history :: retriever_port where
  "no_history saved query = Inr []"

definition empty_world :: world where
  "empty_world =
     \<lparr> llm_calls = [], long_term_memory = [],
       memory_manager = new_memory_manager, clock_reads = 0 \<rparr>"

definition plain_ports :: memory_ports where
  "plain_ports =
     \<lparr> embed_data = (\<lambda>d. Inr []), time_time = (\<lambda>n. real n),
       retrieve_relevant_episodes = (\<lambda>mm q k. Inr []),
       get_semantic_context = (\<lambda>mm q. Inr []),
       format_episodes = (\<lambda>es. []),
       analyze_episodic_patterns = (\<lambda>es. Inr []) \<rparr>"

definition two_items :: "(real \<times> py_dict) list" where
  "two_items = [(1, [(''type'', PyStr ''a'')]), (2, [(''type'', PyStr ''b'')])]"

definition two_subtask_state :: agent_state where
  "two_subtask_state = (initial_state ''t'')\<lparr>subtasks := [''a'', ''b'']\<rparr>"

definition first_episode :: episode where
  "first_episode =
     \<lparr> ep_id = 0, timestamp = 0,
       ep_data = agent_episode_data ''1'' ''a'' ''ok'' (enhanced_context [] [] []),
       embeddings = [] \<rparr>"

definition second_episode :: episode where
  "second_episode =
     \<lparr> ep_id = 1, timestamp = 1,
       ep_data = agent_episode_data ''2'' ''b'' ''ok''
                   (enhanced_context (agent_line ''1'' ''ok'') [] []),
       embeddings = [] \<rparr>"

definition wordy_reply :: string where
  "wordy_reply = concat (replicate 1300 ''x '')"

definition wordy_llm :: llm_port where
  "wordy_llm history prompt = Inr wordy_reply"

definition abc_state :: agent_state where
  "abc_state = (initial_state ''t'')\<lparr>context_str := ''abc''\<rparr>"

definition compression_episode :: episode where
  "compression_episode =
     \<lparr> ep_id = 0, timestamp = 1, ep_data = compression_episode_data ''abc'' ''ok'' 0,
       embeddings = [] \<rparr>"

definition saved_contexts :: "py_error + config \<Rightarrow> string list option" where
  "saved_contexts r =
     (case r of
        Inl e \<Rightarrow> None
      | Inr (w, s) \<Rightarrow> Some (map fst (long_term_memory w)))"

definition compressor_down_llm :: llm_port where
  "compressor_down_llm history prompt =
     (if prompt = compression_prompt [] then Inl ModelError else Inr ''ok'')"

definition two_subtask_plan :: planner_port where
  "two_subtask_plan = plan_of [''a'', ''b'']"


definition as_written_ports :: memory_ports where
  "as_written_ports =
     \<lparr> embed_data = (\<lambda>d. Inr []), time_time = (\<lambda>n. real n),
       retrieve_relevant_episodes = retrieve_as_written (\<lambda>q. Inr []),
       get_semantic_context = get_semantic_context_as_written,
       format_episodes = (\<lambda>es. []),
       analyze_episodic_patterns = (\<lambda>es. Inr []) \<rparr>"





text \<open>
  \<open>episode_entries\<close> reads from each episode the agent id and the result recorded in
  it, \<open>episode_tasks\<close> the subtask; \<open>result_entries\<close> gives the entries of the
  results in the same form.
\<close>

definition episode_entries :: "episode list \<Rightarrow> (py_value option \<times> py_value option) list" where
  "episode_entries es =
     map (\<lambda>e. (dict_get (ep_data e) ''agent_id'', dict_get (ep_data e) ''result'')) es"

definition episode_tasks :: "episode list \<Rightarrow> py_value option list" where
  "episode_tasks es = map (\<lambda>e. dict_get (ep_data e) ''task'') es"

definition result_entries :: "(string \<times> string) list \<Rightarrow> (py_value option \<times> py_value option) list" where
  "result_entries d = map (\<lambda>(k, v). (Some (PyStr k), Some (PyStr v))) d"

section \<open>Facts about the Python values and the nodes\<close>

lemma py_int_1: "py_int ''1'' = Inr 1"
  by (simp add: py_int_def py_strip_def py_space_def unsigned_int_def digit_of_def)

lemma py_int_2: "py_int ''2'' = Inr 2"
  by (simp add: py_int_def py_strip_def py_space_def unsigned_int_def digit_of_def)

lemma py_getitem_0: "py_getitem xs 0 = (if xs = [] then Inl IndexError else Inr (xs ! 0))"
  by (simp add: py_getitem_def)

lemma py_getitem_1: "py_getitem xs 1 = (if length xs < 2 then Inl IndexError else Inr (xs ! 1))"
  by (auto simp add: py_getitem_def)

lemma planned_id_1: "planned_id subs ''1'' = (1 \<le> length subs)"
  by (auto simp add: planned_id_def py_int_1)

lemma planned_id_2: "planned_id subs ''2'' = (2 \<le> length subs)"
  by (auto simp add: planned_id_def py_int_2)

lemma no_missing_two_keys:
  assumes "dict_keys d = [''1'', ''2'']"
  shows "no_missing_subtask subs d = (length subs \<le> 2)"
proof
  assume all: "no_missing_subtask subs d"
  show "length subs \<le> 2"
  proof (rule ccontr)
    assume "\<not> length subs \<le> 2"
    then have "2 \<in> set [0..<length subs]"
      by simp
    with all have "subtask_recorded d 2"
      unfolding no_missing_subtask_def list_all_iff by blast
    then show False
      by (simp add: subtask_recorded_def assms py_int_1 py_int_2)
  qed
next
  assume "length subs \<le> 2"
  then have "\<And>i. i \<in> set [0..<length subs] \<Longrightarrow> i = 0 \<or> i = 1"
    by auto
  then show "no_missing_subtask subs d"
    unfolding no_missing_subtask_def list_all_iff
    by (auto simp add: subtask_recorded_def assms py_int_1 py_int_2)
qed

lemma two_entries_complete: "no_missing_subtask [a, b] [(''1'', r1), (''2'', r2)]"
  by (simp add: no_missing_two_keys dict_keys_def)

lemma invoke_append:
  "invoke (ms @ ns) c = (case invoke ms c of Inl e \<Rightarrow> Inl e | Inr c' \<Rightarrow> invoke ns c')"
  by (induction ms arbitrary: c) (auto split: sum.splits)

lemma sequential_agent_1:
  "sequential_agent_node llm ''1'' (w, s) =
     (if subtasks s = [] then Inl IndexError
      else (case llm (llm_calls w) (sequential_prompt ''1'' (context_str s) (subtasks s ! 0)) of
              Inl e \<Rightarrow> Inl e
            | Inr r \<Rightarrow>
                Inr (w\<lparr>llm_calls := llm_calls w @ [sequential_prompt ''1'' (context_str s) (subtasks s ! 0)]\<rparr>,
                     s\<lparr>sub_results := dict_set (sub_results s) ''1'' r,
                       context_str := context_str s @ agent_line ''1'' r\<rparr>)))"
  by (simp add: sequential_agent_node_def py_int_1 py_getitem_0 chain_run_def split: sum.splits)

lemma sequential_agent_2:
  "sequential_agent_node llm ''2'' (w, s) =
     (if length (subtasks s) < 2 then Inl IndexError
      else (case llm (llm_calls w) (sequential_prompt ''2'' (context_str s) (subtasks s ! 1)) of
              Inl e \<Rightarrow> Inl e
            | Inr r \<Rightarrow>
                Inr (w\<lparr>llm_calls := llm_calls w @ [sequential_prompt ''2'' (context_str s) (subtasks s ! 1)]\<rparr>,
                     s\<lparr>sub_results := dict_set (sub_results s) ''2'' r,
                       context_str := context_str s @ agent_line ''2'' r\<rparr>)))"
  by (simp add: sequential_agent_node_def py_int_2 py_getitem_1 chain_run_def split: sum.splits)

lemma sub_agent_2:
  "length (subtasks s) < 2 \<Longrightarrow> sub_agent_node llm ''2'' (w, s) = Inl IndexError"
  by (simp add: sub_agent_node_def py_int_2 py_getitem_1)

section \<open>The graphs with fewer than two subtasks\<close>

text \<open>
  Claim C10. The graphs have exactly two agent nodes, and an agent node reads
  \<open>subtasks[int(agent_id) - 1]\<close>. When the Planner produces fewer than two subtasks,
  the read of agent 2 is out of range on every state that holds this plan, in the
  sequential node and in the isolated node alike; and the run of the sequential
  graph never completes: it ends in an exception. With no subtask the exception is
  the \<open>IndexError\<close> of agent 1; with one subtask it is the \<open>IndexError\<close> of agent 2,
  unless the model call of agent 1 has raised before. No state with a failed step
  is produced.
\<close>

theorem agent_2_index_out_of_bounds:
  assumes plan: "planner (task s0) = Inr subs"
    and short: "length subs < 2"
  shows "(\<forall>w s. subtasks s = subs \<longrightarrow>
            sequential_agent_node llm ''2'' (w, s) = Inl IndexError \<and>
            sub_agent_node llm ''2'' (w, s) = Inl IndexError) \<and>
         invoke (create_sequential_reliable_graph planner llm merger) (w0, s0) =
           (if subs = [] then Inl IndexError
            else (case llm (llm_calls w0) (sequential_prompt ''1'' (context_str s0) (subs ! 0)) of
                    Inl e \<Rightarrow> Inl e
                  | Inr r \<Rightarrow> Inl IndexError))"
proof (intro conjI allI impI)
  fix w :: world and s :: agent_state
  assume "subtasks s = subs"
  with short show "sequential_agent_node llm ''2'' (w, s) = Inl IndexError"
    by (simp add: sequential_agent_2)
  from \<open>subtasks s = subs\<close> short show "sub_agent_node llm ''2'' (w, s) = Inl IndexError"
    by (simp add: sub_agent_2)
next
  show "invoke (create_sequential_reliable_graph planner llm merger) (w0, s0) =
           (if subs = [] then Inl IndexError
            else (case llm (llm_calls w0) (sequential_prompt ''1'' (context_str s0) (subs ! 0)) of
                    Inl e \<Rightarrow> Inl e
                  | Inr r \<Rightarrow> Inl IndexError))"
    using plan short
    by (simp add: create_sequential_reliable_graph_def break_task_node_def
          sequential_agent_1 sequential_agent_2 split: sum.splits)
qed

theorem agent_2_index_out_of_bounds_witness:
  "plan_of [''a''] (task (initial_state ''t'')) = Inr [''a''] \<and>
   length [''a''] < (2::nat) \<and>
   sequential_agent_node ok_llm ''2'' (empty_world, (initial_state ''t'')\<lparr>subtasks := [''a'']\<rparr>) =
     Inl IndexError \<and>
   invoke (create_sequential_reliable_graph (plan_of [''a'']) ok_llm join_merger)
     (empty_world, initial_state ''t'') = Inl IndexError"
proof -
  have p: "plan_of [''a''] (task (initial_state ''t'')) = Inr [''a'']"
    by (simp add: plan_of_def)
  have l: "length [''a''] < (2::nat)"
    by simp
  from agent_2_index_out_of_bounds
         [where planner = "plan_of [''a'']" and ?s0.0 = "initial_state ''t''" and subs = "[''a'']"
            and llm = ok_llm and merger = join_merger and ?w0.0 = empty_world]
       p l
  show ?thesis
    by (simp add: plan_of_def ok_llm_def)
qed

section \<open>Episode ids\<close>

lemma add_episode_appends:
  assumes "add_episode embedder now mm d = Inr mm'"
  shows "\<exists>e. episodic_memory mm' = episodic_memory mm @ [e] \<and>
             ep_id e = length (episodic_memory mm) \<and> ep_data e = d \<and> timestamp e = now \<and>
             semantic_memory mm' = semantic_memory mm"
  using assms by (auto simp add: add_episode_def split: sum.splits)

lemma add_episodes_appends:
  assumes "add_episodes embedder mm items = Inr mm'"
  shows "\<exists>new. episodic_memory mm' = episodic_memory mm @ new \<and>
           map ep_data new = map snd items \<and>
           map ep_id new =
             [length (episodic_memory mm)..<length (episodic_memory mm) + length items]"
  using assms
proof (induction items arbitrary: mm)
  case Nil
  then show ?case by simp
next
  case (Cons item items)
  obtain now d where item: "item = (now, d)"
    by (cases item)
  from Cons.prems item obtain mm1 where
    one: "add_episode embedder now mm d = Inr mm1" and
    more: "add_episodes embedder mm1 items = Inr mm'"
    by (auto split: sum.splits)
  from add_episode_appends [OF one] obtain e where
    e: "episodic_memory mm1 = episodic_memory mm @ [e]"
       "ep_id e = length (episodic_memory mm)" "ep_data e = d"
    by blast
  from Cons.IH [OF more] obtain new where
    new: "episodic_memory mm' = episodic_memory mm1 @ new"
         "map ep_data new = map snd items"
         "map ep_id new =
            [length (episodic_memory mm1)..<length (episodic_memory mm1) + length items]"
    by blast
  have "episodic_memory mm' = episodic_memory mm @ (e # new)"
    using e new by simp
  moreover have "map ep_data (e # new) = map snd (item # items)"
    using e new item by simp
  moreover have "map ep_id (e # new) =
      [length (episodic_memory mm)..<length (episodic_memory mm) + length (item # items)]"
    using e new by (simp add: upt_conv_Cons del: upt_Suc)
  ultimately show ?case by blast
qed

text \<open>
  Claim C9. \<open>add_episode\<close> appends one episode whose id is the number of episodes
  stored before, and leaves the episodes already stored as they are. Hence, in a
  manager that started empty, the ids are 0, 1, 2, ... in creation order, strictly
  increasing, and the stored data are the data added, in the order added.
\<close>

theorem episode_ids_count_up:
  "(add_episode embedder now mm d = Inr mm' \<longrightarrow>
      (\<exists>e. episodic_memory mm' = episodic_memory mm @ [e] \<and>
           ep_id e = length (episodic_memory mm) \<and> ep_data e = d)) \<and>
   (add_episodes embedder new_memory_manager items = Inr mm2 \<longrightarrow>
      map ep_id (episodic_memory mm2) = [0..<length items] \<and>
      map ep_data (episodic_memory mm2) = map snd items \<and>
      sorted_wrt (<) (map ep_id (episodic_memory mm2)))"
proof (intro conjI impI)
  assume "add_episode embedder now mm d = Inr mm'"
  from add_episode_appends [OF this]
  show "\<exists>e. episodic_memory mm' = episodic_memory mm @ [e] \<and>
           ep_id e = length (episodic_memory mm) \<and> ep_data e = d"
    by blast
next
  assume run: "add_episodes embedder new_memory_manager items = Inr mm2"
  from add_episodes_appends [OF run] obtain new where
    new: "episodic_memory mm2 = new" "map ep_data new = map snd items"
         "map ep_id new = [0..<length items]"
    by (auto simp add: new_memory_manager_def)
  show "map ep_id (episodic_memory mm2) = [0..<length items]"
    using new by simp
  show "map ep_data (episodic_memory mm2) = map snd items"
    using new by simp
  show "sorted_wrt (<) (map ep_id (episodic_memory mm2))"
    using new by simp
qed

theorem episode_ids_count_up_witness:
  "add_episode (embed_data plain_ports) 1 new_memory_manager [(''type'', PyStr ''a'')] =
     Inr \<lparr> episodic_memory =
             [\<lparr> ep_id = 0, timestamp = 1, ep_data = [(''type'', PyStr ''a'')], embeddings = [] \<rparr>],
           semantic_memory = [] \<rparr> \<and>
   add_episodes (embed_data plain_ports) new_memory_manager two_items =
     Inr \<lparr> episodic_memory =
             [\<lparr> ep_id = 0, timestamp = 1, ep_data = [(''type'', PyStr ''a'')], embeddings = [] \<rparr>,
              \<lparr> ep_id = 1, timestamp = 2, ep_data = [(''type'', PyStr ''b'')], embeddings = [] \<rparr>],
           semantic_memory = [] \<rparr> \<and>
   map ep_id
     [\<lparr> ep_id = 0, timestamp = 1, ep_data = [(''type'', PyStr ''a'')], embeddings = [] \<rparr>,
      \<lparr> ep_id = 1, timestamp = 2, ep_data = [(''type'', PyStr ''b'')], embeddings = [] \<rparr>] =
     [0..<length two_items]"
proof -
  have one: "add_episode (embed_data plain_ports) 1 new_memory_manager [(''type'', PyStr ''a'')] =
     Inr \<lparr> episodic_memory =
             [\<lparr> ep_id = 0, timestamp = 1, ep_data = [(''type'', PyStr ''a'')], embeddings = [] \<rparr>],
           semantic_memory = [] \<rparr>"
    by (simp add: add_episode_def plain_ports_def new_memory_manager_def)
  have two: "add_episodes (embed_data plain_ports) new_memory_manager two_items =
     Inr \<lparr> episodic_memory =
             [\<lparr> ep_id = 0, timestamp = 1, ep_data = [(''type'', PyStr ''a'')], embeddings = [] \<rparr>,
              \<lparr> ep_id = 1, timestamp = 2, ep_data = [(''type'', PyStr ''b'')], embeddings = [] \<rparr>],
           semantic_memory = [] \<rparr>"
    by (simp add: two_items_def add_episode_def plain_ports_def new_memory_manager_def)
  from episode_ids_count_up
         [where embedder = "embed_data plain_ports" and now = 1 and mm = new_memory_manager
            and d = "[(''type'', PyStr ''a'')]" and items = two_items
            and mm' = "\<lparr> episodic_memory =
               [\<lparr> ep_id = 0, timestamp = 1, ep_data = [(''type'', PyStr ''a'')], embeddings = [] \<rparr>],
               semantic_memory = [] \<rparr>"
            and ?mm2.0 = "\<lparr> episodic_memory =
               [\<lparr> ep_id = 0, timestamp = 1, ep_data = [(''type'', PyStr ''a'')], embeddings = [] \<rparr>,
                \<lparr> ep_id = 1, timestamp = 2, ep_data = [(''type'', PyStr ''b'')], embeddings = [] \<rparr>],
               semantic_memory = [] \<rparr>"]
       one two
  show ?thesis
    by simp
qed

section \<open>Consolidation\<close>




section \<open>The sequential run\<close>

lemma dict_get_dict_set: "dict_get (dict_set d k v) k = Some v"
  by (induction d) (auto simp add: dict_get_def)

lemma dict_keys_dict_set:
  "dict_keys (dict_set d k v) = (if k \<in> set (dict_keys d) then dict_keys d else dict_keys d @ [k])"
  by (induction d) (force simp add: dict_keys_def)+

lemma sublist_middle: "sublist r (a @ r @ b)"
  by (auto simp add: sublist_def)

lemma sublist_agent_line: "sublist r (ctx @ agent_line agent_id r)"
proof -
  have "ctx @ agent_line agent_id r = (ctx @ nl @ ''[Agent '' @ agent_id @ '']: '') @ r @ []"
    by (simp add: agent_line_def)
  then show ?thesis
    by (metis sublist_middle)
qed

lemma sublist_sequential_prompt:
  assumes "sublist r ctx"
  shows "sublist r (sequential_prompt agent_id ctx tsk)"
proof -
  from assms obtain a b where ctx: "ctx = a @ r @ b"
    by (auto simp add: sublist_def)
  have "sequential_prompt agent_id ctx tsk =
      (nl @ indent @ ''You are Sub-agent '' @ agent_id @ ''.'' @ nl @ indent @ nl @ indent @
         ''Previous context: '' @ a) @ r @
      (b @ nl @ indent @ ''Current task: '' @ tsk @ nl @ indent @ nl @ indent @
         ''Build upon previous work and complete your task.'' @ nl @ indent)"
    by (simp add: sequential_prompt_def ctx)
  then show ?thesis
    by (metis sublist_middle)
qed

lemma reliable_graph_run:
  "invoke (create_sequential_reliable_graph planner llm merger) (w0, s0) =
     (case planner (task s0) of
        Inl e \<Rightarrow> Inl e
      | Inr subs \<Rightarrow>
          (case sequential_agent_node llm ''1''
                  (w0, s0\<lparr>subtasks := subs, step := ''planning_complete''\<rparr>) of
             Inl e \<Rightarrow> Inl e
           | Inr c1 \<Rightarrow>
               (case sequential_agent_node llm ''2'' c1 of
                  Inl e \<Rightarrow> Inl e
                | Inr c2 \<Rightarrow> merge_sequential_node merger c2)))"
  by (simp add: create_sequential_reliable_graph_def break_task_node_def split: sum.splits)

text \<open>
  Claim C1. Take a run of the sequential graph whose Planner returns at least two
  subtasks and in which the model answers agent 1 with \<open>r1\<close>. When agent 1 has
  returned, exactly one prompt has been answered and the state holds \<open>r1\<close> under
  the key "1" and inside the cumulative context. Only then is agent 2 run, on that
  state: the rest of the run is the model's answer to the prompt \<open>p2\<close> of agent 2,
  asked after \<open>p1\<close>, and \<open>p2\<close> contains the text \<open>r1\<close>. The graphs have two agents,
  so subtask 1 is the only earlier subtask there is.
\<close>

theorem second_prompt_carries_first_output:
  assumes plan: "planner (task s0) = Inr subs"
    and two: "2 \<le> length subs"
    and first: "llm (llm_calls w0) (sequential_prompt ''1'' (context_str s0) (subs ! 0)) = Inr r1"
  shows "let p1 = sequential_prompt ''1'' (context_str s0) (subs ! 0);
             s1 = s0\<lparr>subtasks := subs, step := ''planning_complete'',
                     sub_results := dict_set (sub_results s0) ''1'' r1,
                     context_str := context_str s0 @ agent_line ''1'' r1\<rparr>;
             p2 = sequential_prompt ''2'' (context_str s1) (subs ! 1)
         in dict_get (sub_results s1) ''1'' = Some r1 \<and>
            sublist r1 (context_str s1) \<and>
            sublist r1 p2 \<and>
            invoke [break_task_node planner, sequential_agent_node llm ''1''] (w0, s0) =
              Inr (w0\<lparr>llm_calls := llm_calls w0 @ [p1]\<rparr>, s1) \<and>
            invoke (create_sequential_reliable_graph planner llm merger) (w0, s0) =
              (case llm (llm_calls w0 @ [p1]) p2 of
                 Inl e \<Rightarrow> Inl e
               | Inr r2 \<Rightarrow>
                   merge_sequential_node merger
                     (w0\<lparr>llm_calls := llm_calls w0 @ [p1, p2]\<rparr>,
                      s1\<lparr>sub_results := dict_set (sub_results s1) ''2'' r2,
                         context_str := context_str s1 @ agent_line ''2'' r2\<rparr>))"
proof -
  let ?p1 = "sequential_prompt ''1'' (context_str s0) (subs ! 0)"
  let ?s1 = "s0\<lparr>subtasks := subs, step := ''planning_complete'',
                sub_results := dict_set (sub_results s0) ''1'' r1,
                context_str := context_str s0 @ agent_line ''1'' r1\<rparr>"
  let ?p2 = "sequential_prompt ''2'' (context_str ?s1) (subs ! 1)"
  have ne: "subs \<noteq> []" and len: "\<not> length subs < 2"
    using two by auto
  have a: "dict_get (sub_results ?s1) ''1'' = Some r1"
    by (simp add: dict_get_dict_set)
  have b: "sublist r1 (context_str ?s1)"
    by (simp add: sublist_agent_line)
  have c: "sublist r1 ?p2"
    using b by (rule sublist_sequential_prompt)
  have d: "invoke [break_task_node planner, sequential_agent_node llm ''1''] (w0, s0) =
      Inr (w0\<lparr>llm_calls := llm_calls w0 @ [?p1]\<rparr>, ?s1)"
    using plan first ne by (simp add: break_task_node_def sequential_agent_1)
  have e: "invoke (create_sequential_reliable_graph planner llm merger) (w0, s0) =
      (case llm (llm_calls w0 @ [?p1]) ?p2 of
         Inl e \<Rightarrow> Inl e
       | Inr r2 \<Rightarrow>
           merge_sequential_node merger
             (w0\<lparr>llm_calls := llm_calls w0 @ [?p1, ?p2]\<rparr>,
              ?s1\<lparr>sub_results := dict_set (sub_results ?s1) ''2'' r2,
                  context_str := context_str ?s1 @ agent_line ''2'' r2\<rparr>))"
    using plan first ne len
    by (simp add: reliable_graph_run sequential_agent_1 sequential_agent_2 split: sum.splits)
  show ?thesis
    unfolding Let_def by (intro conjI) (fact a, fact b, fact c, fact d, fact e)
qed

theorem second_prompt_carries_first_output_witness:
  "plan_of [''a'', ''b''] (task (initial_state ''t'')) = Inr [''a'', ''b''] \<and>
   2 \<le> length [''a'', ''b''] \<and>
   ok_llm (llm_calls empty_world) (sequential_prompt ''1'' [] ''a'') = Inr ''ok'' \<and>
   sublist ''ok'' (sequential_prompt ''2'' (agent_line ''1'' ''ok'') ''b'') \<and>
   invoke (create_sequential_reliable_graph (plan_of [''a'', ''b'']) ok_llm join_merger)
       (empty_world, initial_state ''t'') =
     Inr (empty_world\<lparr>llm_calls :=
            [sequential_prompt ''1'' [] ''a'',
             sequential_prompt ''2'' (agent_line ''1'' ''ok'') ''b'']\<rparr>,
          (initial_state ''t'')\<lparr>subtasks := [''a'', ''b''], step := ''completed'',
             sub_results := [(''1'', ''ok''), (''2'', ''ok'')],
             context_str := agent_line ''1'' ''ok'' @ agent_line ''2'' ''ok'',
             final_result := ''okok''\<rparr>)"
proof -
  have p: "plan_of [''a'', ''b''] (task (initial_state ''t'')) = Inr [''a'', ''b'']"
    by (simp add: plan_of_def)
  have l: "2 \<le> length [''a'', ''b'']"
    by simp
  have f: "ok_llm (llm_calls empty_world)
             (sequential_prompt ''1'' (context_str (initial_state ''t'')) ([''a'', ''b''] ! 0)) =
           Inr ''ok''"
    by (simp add: ok_llm_def)
  from second_prompt_carries_first_output
         [where planner = "plan_of [''a'', ''b'']" and ?s0.0 = "initial_state ''t''"
            and subs = "[''a'', ''b'']" and llm = ok_llm and ?w0.0 = empty_world
            and ?r1.0 = "''ok''" and merger = join_merger]
       p l f
  show ?thesis
    by (simp add: Let_def plan_of_def ok_llm_def initial_state_def empty_world_def
          merge_sequential_node_def join_merger_def two_entries_complete)
qed

section \<open>Compression\<close>

lemma compress_context_success:
  assumes "compress_context_node llm (w, s) = Inr (w', s')"
  shows "llm (llm_calls w) (compression_prompt (context_str s)) = Inr (compressed_context s') \<and>
         s' = s\<lparr>compressed_context := compressed_context s'\<rparr> \<and>
         w' = w\<lparr>llm_calls := llm_calls w @ [compression_prompt (context_str s)],
                long_term_memory := long_term_memory w @ [(context_str s, compressed_context s')]\<rparr>"
  using assms
  by (auto simp add: compress_context_node_def chain_run_def split: sum.splits)

lemma enhanced_compress_success:
  assumes "enhanced_compress_context_node P llm (w, s) = Inr (w', s')"
  shows "\<exists>episodes.
           retrieve_relevant_episodes P (memory_manager w) (context_str s) 3 = Inr episodes \<and>
           llm (llm_calls w)
               (enhanced_compression_prompt (context_str s) (format_episodes P episodes)) =
             Inr (compressed_context s') \<and>
           s' = s\<lparr>compressed_context := compressed_context s'\<rparr>"
  using assms
  by (auto simp add: enhanced_compress_context_node_def chain_run_def Let_def split: sum.splits)

text \<open>
  Claim C6, amended. When a compression node returns, \<open>compressed_context\<close> is
  exactly the text the model returned for the compression prompt, and the context
  is as before. The prompt asks for fewer than 200 words, but nothing in the node
  checks a length: the output is no longer than the input, or within a given
  limit, when the model's reply is.
\<close>

theorem compressed_context_is_model_reply:
  "(compress_context_node llm (w, s) = Inr (w', s') \<longrightarrow>
      llm (llm_calls w) (compression_prompt (context_str s)) = Inr (compressed_context s') \<and>
      context_str s' = context_str s) \<and>
   (enhanced_compress_context_node P llm (v, t) = Inr (v', t') \<longrightarrow>
      (\<exists>episodes.
          retrieve_relevant_episodes P (memory_manager v) (context_str t) 3 = Inr episodes \<and>
          llm (llm_calls v)
              (enhanced_compression_prompt (context_str t) (format_episodes P episodes)) =
            Inr (compressed_context t')) \<and>
      context_str t' = context_str t) \<and>
   (compress_context_node llm (w, s) = Inr (w', s') \<and>
    llm (llm_calls w) (compression_prompt (context_str s)) = Inr reply \<and>
    length reply \<le> length (context_str s) \<and> length reply \<le> limit \<longrightarrow>
      length (compressed_context s') \<le> length (context_str s') \<and>
      length (compressed_context s') \<le> limit)"
proof (intro conjI impI)
  assume run: "compress_context_node llm (w, s) = Inr (w', s')"
  from compress_context_success [OF run]
  show "llm (llm_calls w) (compression_prompt (context_str s)) = Inr (compressed_context s')"
    by simp
  from compress_context_success [OF run] have "s' = s\<lparr>compressed_context := compressed_context s'\<rparr>"
    by simp
  then have "context_str s' = context_str (s\<lparr>compressed_context := compressed_context s'\<rparr>)"
    by simp
  then show "context_str s' = context_str s"
    by simp
next
  assume run: "enhanced_compress_context_node P llm (v, t) = Inr (v', t')"
  from enhanced_compress_success [OF run] obtain episodes where
    ep: "retrieve_relevant_episodes P (memory_manager v) (context_str t) 3 = Inr episodes"
        "llm (llm_calls v)
             (enhanced_compression_prompt (context_str t) (format_episodes P episodes)) =
           Inr (compressed_context t')"
        "t' = t\<lparr>compressed_context := compressed_context t'\<rparr>"
    by blast
  from ep(1,2) show "\<exists>episodes.
          retrieve_relevant_episodes P (memory_manager v) (context_str t) 3 = Inr episodes \<and>
          llm (llm_calls v)
              (enhanced_compression_prompt (context_str t) (format_episodes P episodes)) =
            Inr (compressed_context t')"
    by blast
  from ep(3) have "context_str t' = context_str (t\<lparr>compressed_context := compressed_context t'\<rparr>)"
    by simp
  then show "context_str t' = context_str t"
    by simp
next
  assume h: "compress_context_node llm (w, s) = Inr (w', s') \<and>
    llm (llm_calls w) (compression_prompt (context_str s)) = Inr reply \<and>
    length reply \<le> length (context_str s) \<and> length reply \<le> limit"
  then have run: "compress_context_node llm (w, s) = Inr (w', s')"
    by simp
  from compress_context_success [OF run] h have r: "compressed_context s' = reply"
    by simp
  from compress_context_success [OF run] have "s' = s\<lparr>compressed_context := compressed_context s'\<rparr>"
    by simp
  then have "context_str s' = context_str (s\<lparr>compressed_context := compressed_context s'\<rparr>)"
    by simp
  then have c: "context_str s' = context_str s"
    by simp
  show "length (compressed_context s') \<le> length (context_str s')"
    using h r c by simp
  show "length (compressed_context s') \<le> limit"
    using h r by simp
qed

theorem compressed_context_is_model_reply_witness:
  "compress_context_node ok_llm (empty_world, abc_state) =
     Inr (empty_world\<lparr>llm_calls := [compression_prompt ''abc''],
            long_term_memory := [(''abc'', ''ok'')]\<rparr>,
          abc_state\<lparr>compressed_context := ''ok''\<rparr>) \<and>
   enhanced_compress_context_node plain_ports ok_llm (empty_world, abc_state) =
     Inr (empty_world\<lparr>llm_calls := [enhanced_compression_prompt ''abc'' []],
            memory_manager :=
              \<lparr> episodic_memory = [compression_episode], semantic_memory = [] \<rparr>,
            clock_reads := 2\<rparr>,
          abc_state\<lparr>compressed_context := ''ok''\<rparr>) \<and>
   ok_llm (llm_calls empty_world) (compression_prompt (context_str abc_state)) = Inr ''ok'' \<and>
   length ''ok'' \<le> length (context_str abc_state) \<and>
   length ''ok'' \<le> (1200::nat) \<and>
   length (compressed_context (abc_state\<lparr>compressed_context := ''ok''\<rparr>)) \<le>
     length (context_str (abc_state\<lparr>compressed_context := ''ok''\<rparr>)) \<and>
   length (compressed_context (abc_state\<lparr>compressed_context := ''ok''\<rparr>)) \<le> (1200::nat)"
proof -
  have c: "compress_context_node ok_llm (empty_world, abc_state) =
     Inr (empty_world\<lparr>llm_calls := [compression_prompt ''abc''],
            long_term_memory := [(''abc'', ''ok'')]\<rparr>,
          abc_state\<lparr>compressed_context := ''ok''\<rparr>)"
    by (simp add: compress_context_node_def chain_run_def ok_llm_def abc_state_def
          initial_state_def empty_world_def)
  have n: "enhanced_compress_context_node plain_ports ok_llm (empty_world, abc_state) =
     Inr (empty_world\<lparr>llm_calls := [enhanced_compression_prompt ''abc'' []],
            memory_manager :=
              \<lparr> episodic_memory = [compression_episode], semantic_memory = [] \<rparr>,
            clock_reads := 2\<rparr>,
          abc_state\<lparr>compressed_context := ''ok''\<rparr>)"
    by (simp add: enhanced_compress_context_node_def Let_def chain_run_def
          manager_add_episode_def add_episode_def plain_ports_def ok_llm_def
          compression_episode_def abc_state_def initial_state_def empty_world_def
          new_memory_manager_def)
  have r: "ok_llm (llm_calls empty_world) (compression_prompt (context_str abc_state)) = Inr ''ok''"
    by (simp add: ok_llm_def)
  have l: "length ''ok'' \<le> length (context_str abc_state)"
    by (simp add: abc_state_def initial_state_def)
  have m: "length ''ok'' \<le> (1200::nat)"
    by simp
  from compressed_context_is_model_reply
         [where llm = ok_llm and w = empty_world and s = abc_state
            and w' = "empty_world\<lparr>llm_calls := [compression_prompt ''abc''],
                        long_term_memory := [(''abc'', ''ok'')]\<rparr>"
            and s' = "abc_state\<lparr>compressed_context := ''ok''\<rparr>"
            and P = plain_ports and v = empty_world and t = abc_state
            and v' = "empty_world\<lparr>llm_calls := [enhanced_compression_prompt ''abc'' []],
                        memory_manager :=
                          \<lparr> episodic_memory = [compression_episode], semantic_memory = [] \<rparr>,
                        clock_reads := 2\<rparr>"
            and t' = "abc_state\<lparr>compressed_context := ''ok''\<rparr>"
            and reply = "''ok''" and limit = 1200]
       c n r l m
  show ?thesis
    by simp
qed

lemma length_wordy_reply: "length wordy_reply = 2600"
  by (simp add: wordy_reply_def length_concat sum_list_replicate)

text \<open>
  The claim as stated fails on the first compression of a run, where the context is
  still empty: the model's reply of 2600 characters (1300 words) becomes the
  compressed context, longer than its input and longer than 1200 characters.
\<close>

theorem compression_grows_counterexample:
  "compress_context_node wordy_llm (empty_world, initial_state ''t'') =
     Inr (empty_world\<lparr>llm_calls := [compression_prompt []],
            long_term_memory := [([], wordy_reply)]\<rparr>,
          (initial_state ''t'')\<lparr>compressed_context := wordy_reply\<rparr>) \<and>
   length (context_str ((initial_state ''t'')\<lparr>compressed_context := wordy_reply\<rparr>)) = 0 \<and>
   length (compressed_context ((initial_state ''t'')\<lparr>compressed_context := wordy_reply\<rparr>)) = 2600"
  by (simp add: compress_context_node_def chain_run_def wordy_llm_def initial_state_def
        empty_world_def length_wordy_reply)

section \<open>The sequential run, node by node\<close>

lemma invoke_Cons_success:
  assumes "invoke (n # ns) c = Inr c'"
  shows "\<exists>w s. n c = Inr (w, s) \<and> invoke ns (w, s) = Inr c'"
  using assms by (cases "n c") auto

lemma break_task_returns:
  assumes "break_task_node planner (w, s) = Inr (w', s')"
  shows "\<exists>subs. planner (task s) = Inr subs \<and> w' = w \<and>
           s' = s\<lparr>subtasks := subs, step := ''planning_complete''\<rparr>"
  using assms by (auto simp add: break_task_node_def split: sum.splits)

lemma sequential_agent_1_returns:
  assumes "sequential_agent_node llm ''1'' (w, s) = Inr (w', s')"
  shows "\<exists>r. subtasks s \<noteq> [] \<and>
           llm (llm_calls w) (sequential_prompt ''1'' (context_str s) (subtasks s ! 0)) = Inr r \<and>
           w' = w\<lparr>llm_calls := llm_calls w @
                   [sequential_prompt ''1'' (context_str s) (subtasks s ! 0)]\<rparr> \<and>
           s' = s\<lparr>sub_results := dict_set (sub_results s) ''1'' r,
                  context_str := context_str s @ agent_line ''1'' r\<rparr>"
  using assms by (auto simp add: sequential_agent_1 split: if_splits sum.splits)

lemma sequential_agent_2_returns:
  assumes "sequential_agent_node llm ''2'' (w, s) = Inr (w', s')"
  shows "\<exists>r. 2 \<le> length (subtasks s) \<and>
           llm (llm_calls w) (sequential_prompt ''2'' (context_str s) (subtasks s ! 1)) = Inr r \<and>
           w' = w\<lparr>llm_calls := llm_calls w @
                   [sequential_prompt ''2'' (context_str s) (subtasks s ! 1)]\<rparr> \<and>
           s' = s\<lparr>sub_results := dict_set (sub_results s) ''2'' r,
                  context_str := context_str s @ agent_line ''2'' r\<rparr>"
  using assms by (auto simp add: sequential_agent_2 split: if_splits sum.splits)

lemma merge_sequential_returns:
  assumes "merge_sequential_node merger (w, s) = Inr (w', s')"
  shows "\<exists>final. no_missing_subtask (subtasks s) (sub_results s) \<and> merger s = Inr final \<and>
           w' = w \<and> s' = s\<lparr>final_result := final, step := ''completed''\<rparr>"
  using assms by (auto simp add: merge_sequential_node_def split: if_splits sum.splits)

lemma through_break:
  assumes "invoke [break_task_node planner] (w0, s0) = Inr (w, s)"
  shows "\<exists>subs. planner (task s0) = Inr subs \<and> w = w0 \<and>
           s = s0\<lparr>subtasks := subs, step := ''planning_complete''\<rparr>"
proof -
  from invoke_Cons_success [OF assms] obtain wa sa where
    a: "break_task_node planner (w0, s0) = Inr (wa, sa)" and r: "invoke [] (wa, sa) = Inr (w, s)"
    by blast
  from break_task_returns [OF a] r show ?thesis
    by auto
qed

lemma through_agent_1:
  assumes "invoke [break_task_node planner, sequential_agent_node llm ''1''] (w0, s0) = Inr (w, s)"
  shows "\<exists>subs r1. planner (task s0) = Inr subs \<and> subs \<noteq> [] \<and>
           llm (llm_calls w0) (sequential_prompt ''1'' (context_str s0) (subs ! 0)) = Inr r1 \<and>
           w = w0\<lparr>llm_calls := llm_calls w0 @
                  [sequential_prompt ''1'' (context_str s0) (subs ! 0)]\<rparr> \<and>
           s = s0\<lparr>subtasks := subs, step := ''planning_complete'',
                 sub_results := dict_set (sub_results s0) ''1'' r1,
                 context_str := context_str s0 @ agent_line ''1'' r1\<rparr>"
proof -
  from invoke_Cons_success [OF assms] obtain wa sa where
    a: "break_task_node planner (w0, s0) = Inr (wa, sa)" and
    r: "invoke [sequential_agent_node llm ''1''] (wa, sa) = Inr (w, s)"
    by blast
  from invoke_Cons_success [OF r] obtain wb sb where
    b: "sequential_agent_node llm ''1'' (wa, sa) = Inr (wb, sb)" and
    r': "invoke [] (wb, sb) = Inr (w, s)"
    by blast
  from break_task_returns [OF a] obtain subs where
    p: "planner (task s0) = Inr subs" "wa = w0"
       "sa = s0\<lparr>subtasks := subs, step := ''planning_complete''\<rparr>"
    by blast
  from sequential_agent_1_returns [OF b] p r' show ?thesis
    by auto
qed

lemma through_agent_2:
  assumes "invoke [break_task_node planner, sequential_agent_node llm ''1'',
                   sequential_agent_node llm ''2''] (w0, s0) = Inr (w, s)"
  shows "\<exists>subs r1 r2. planner (task s0) = Inr subs \<and> 2 \<le> length subs \<and>
           llm (llm_calls w0) (sequential_prompt ''1'' (context_str s0) (subs ! 0)) = Inr r1 \<and>
           llm (llm_calls w0 @ [sequential_prompt ''1'' (context_str s0) (subs ! 0)])
               (sequential_prompt ''2'' (context_str s0 @ agent_line ''1'' r1) (subs ! 1)) =
             Inr r2 \<and>
           w = w0\<lparr>llm_calls := llm_calls w0 @
                  [sequential_prompt ''1'' (context_str s0) (subs ! 0),
                   sequential_prompt ''2'' (context_str s0 @ agent_line ''1'' r1) (subs ! 1)]\<rparr> \<and>
           s = s0\<lparr>subtasks := subs, step := ''planning_complete'',
                 sub_results := dict_set (dict_set (sub_results s0) ''1'' r1) ''2'' r2,
                 context_str := context_str s0 @ agent_line ''1'' r1 @ agent_line ''2'' r2\<rparr>"
proof -
  have split: "[break_task_node planner, sequential_agent_node llm ''1'',
                sequential_agent_node llm ''2''] =
               [break_task_node planner, sequential_agent_node llm ''1''] @
               [sequential_agent_node llm ''2'']"
    by simp
  from assms obtain wa sa where
    a: "invoke [break_task_node planner, sequential_agent_node llm ''1''] (w0, s0) = Inr (wa, sa)"
    and b: "sequential_agent_node llm ''2'' (wa, sa) = Inr (w, s)"
    unfolding split invoke_append by (auto split: sum.splits)
  from through_agent_1 [OF a] obtain subs r1 where
    p: "planner (task s0) = Inr subs"
       "llm (llm_calls w0) (sequential_prompt ''1'' (context_str s0) (subs ! 0)) = Inr r1"
       "wa = w0\<lparr>llm_calls := llm_calls w0 @
                  [sequential_prompt ''1'' (context_str s0) (subs ! 0)]\<rparr>"
       "sa = s0\<lparr>subtasks := subs, step := ''planning_complete'',
                 sub_results := dict_set (sub_results s0) ''1'' r1,
                 context_str := context_str s0 @ agent_line ''1'' r1\<rparr>"
    by blast
  from sequential_agent_2_returns [OF b] p show ?thesis
    by auto
qed

section \<open>Results against the plan, on a run\<close>

text \<open>
  Claim C2. A run of the sequential graph that ends in success, started with empty
  results as the usage examples start it, ends with results that match the plan:
  every key is the id of a planned subtask and every planned subtask has an entry.
  The keys are "1" and "2", and the plan has exactly two subtasks: the result
  aggregator refuses results with a missing subtask, so a plan of another length
  does not end in success.
\<close>

theorem successful_run_results_match_plan:
  assumes run: "invoke (create_sequential_reliable_graph planner llm merger) (w0, s0) = Inr (w, s)"
    and empty: "sub_results s0 = []"
  shows "planner (task s0) = Inr (subtasks s) \<and>
         results_match_plan (subtasks s) (sub_results s) \<and>
         no_extra_key (subtasks s) (sub_results s) \<and>
         no_missing_subtask (subtasks s) (sub_results s) \<and>
         dict_keys (sub_results s) = [''1'', ''2''] \<and>
         length (subtasks s) = 2"
proof -
  have split: "create_sequential_reliable_graph planner llm merger =
      [break_task_node planner, sequential_agent_node llm ''1'', sequential_agent_node llm ''2''] @
      [merge_sequential_node merger]"
    by (simp add: create_sequential_reliable_graph_def)
  from run obtain wa sa where
    a: "invoke [break_task_node planner, sequential_agent_node llm ''1'',
                sequential_agent_node llm ''2''] (w0, s0) = Inr (wa, sa)" and
    m: "merge_sequential_node merger (wa, sa) = Inr (w, s)"
    unfolding split invoke_append by (auto split: sum.splits)
  from through_agent_2 [OF a] empty obtain subs r1 r2 where
    p: "planner (task s0) = Inr subs" "2 \<le> length subs"
       "subtasks sa = subs" "sub_results sa = [(''1'', r1), (''2'', r2)]"
    by auto
  from merge_sequential_returns [OF m] p have
    fin: "subtasks s = subs" "sub_results s = [(''1'', r1), (''2'', r2)]"
         "no_missing_subtask subs [(''1'', r1), (''2'', r2)]"
    by auto
  have keys: "dict_keys (sub_results s) = [''1'', ''2'']"
    using fin by (simp add: dict_keys_def)
  have len: "length subs = 2"
    using fin(3) p(2) no_missing_two_keys [of "[(''1'', r1), (''2'', r2)]" subs]
    by (simp add: dict_keys_def)
  have extra: "no_extra_key (subtasks s) (sub_results s)"
    using fin len by (simp add: no_extra_key_def dict_keys_def planned_id_1 planned_id_2)
  show ?thesis
    using p(1) fin keys len extra by (simp add: results_match_plan_def)
qed

theorem successful_run_results_match_plan_witness:
  "invoke (create_sequential_reliable_graph (plan_of [''a'', ''b'']) ok_llm join_merger)
       (empty_world, initial_state ''t'') =
     Inr (empty_world\<lparr>llm_calls :=
            [sequential_prompt ''1'' [] ''a'',
             sequential_prompt ''2'' (agent_line ''1'' ''ok'') ''b'']\<rparr>,
          (initial_state ''t'')\<lparr>subtasks := [''a'', ''b''], step := ''completed'',
             sub_results := [(''1'', ''ok''), (''2'', ''ok'')],
             context_str := agent_line ''1'' ''ok'' @ agent_line ''2'' ''ok'',
             final_result := ''okok''\<rparr>) \<and>
   sub_results (initial_state ''t'') = [] \<and>
   results_match_plan [''a'', ''b''] [(''1'', ''ok''), (''2'', ''ok'')]"
proof -
  have run: "invoke (create_sequential_reliable_graph (plan_of [''a'', ''b'']) ok_llm join_merger)
       (empty_world, initial_state ''t'') =
     Inr (empty_world\<lparr>llm_calls :=
            [sequential_prompt ''1'' [] ''a'',
             sequential_prompt ''2'' (agent_line ''1'' ''ok'') ''b'']\<rparr>,
          (initial_state ''t'')\<lparr>subtasks := [''a'', ''b''], step := ''completed'',
             sub_results := [(''1'', ''ok''), (''2'', ''ok'')],
             context_str := agent_line ''1'' ''ok'' @ agent_line ''2'' ''ok'',
             final_result := ''okok''\<rparr>)"
    by (simp add: reliable_graph_run sequential_agent_1 sequential_agent_2 plan_of_def
          ok_llm_def initial_state_def empty_world_def merge_sequential_node_def join_merger_def
          two_entries_complete)
  have empty: "sub_results (initial_state ''t'') = []"
    by (simp add: initial_state_def)
  from successful_run_results_match_plan [OF run empty] run empty
  show ?thesis
    by (simp add: initial_state_def)
qed

lemma three_subtask_run_is_refused:
  "invoke (create_sequential_reliable_graph (plan_of [''a'', ''b'', ''c'']) ok_llm join_merger)
     (empty_world, initial_state ''t'') = Inl AggregationError"
proof -
  have "\<not> no_missing_subtask [''a'', ''b'', ''c''] [(''1'', ''ok''), (''2'', ''ok'')]"
    by (simp add: no_missing_two_keys dict_keys_def)
  then show ?thesis
    by (simp add: reliable_graph_run sequential_agent_1 sequential_agent_2 plan_of_def
          ok_llm_def initial_state_def empty_world_def merge_sequential_node_def)
qed

section \<open>A capability that fails\<close>




section \<open>Order of completion\<close>

lemma reliable_graph_length:
  "length (create_sequential_reliable_graph planner llm merger) = 4"
  by (simp add: create_sequential_reliable_graph_def)

lemma reliable_prefix_order:
  assumes run: "invoke (take n (create_sequential_reliable_graph planner llm merger)) (w0, s0) =
                  Inr (w, s)"
    and empty: "sub_results s0 = []"
  shows "\<exists>subs r1 r2.
           (n = 0 \<or> planner (task s0) = Inr subs) \<and>
           sub_results s = take (n - 1) [(''1'', r1), (''2'', r2)] \<and>
           map py_int (dict_keys (sub_results s)) = take (n - 1) [Inr 1, Inr 2] \<and>
           llm_calls w =
             llm_calls w0 @
               take (n - 1)
                 [sequential_prompt ''1'' (context_str s0) (subs ! 0),
                  sequential_prompt ''2'' (context_str s0 @ agent_line ''1'' r1) (subs ! 1)] \<and>
           episodic_memory (memory_manager w) = episodic_memory (memory_manager w0)"
proof -
  consider "n = 0" | "n = 1" | "n = 2" | "n = 3" | "4 \<le> n"
    by linarith
  then show ?thesis
  proof cases
    case 1
    with run empty show ?thesis
      by (simp add: dict_keys_def)
  next
    case 2
    with run have "invoke [break_task_node planner] (w0, s0) = Inr (w, s)"
      by (simp add: create_sequential_reliable_graph_def)
    from through_break [OF this] empty 2 show ?thesis
      by (auto simp add: dict_keys_def)
  next
    case 3
    with run have "invoke [break_task_node planner, sequential_agent_node llm ''1''] (w0, s0) =
        Inr (w, s)"
      by (simp add: create_sequential_reliable_graph_def)
    from through_agent_1 [OF this] obtain subs r1 where
      p: "planner (task s0) = Inr subs"
         "w = w0\<lparr>llm_calls := llm_calls w0 @
                  [sequential_prompt ''1'' (context_str s0) (subs ! 0)]\<rparr>"
         "s = s0\<lparr>subtasks := subs, step := ''planning_complete'',
                 sub_results := dict_set (sub_results s0) ''1'' r1,
                 context_str := context_str s0 @ agent_line ''1'' r1\<rparr>"
      by blast
    have "(n = 0 \<or> planner (task s0) = Inr subs) \<and>
           sub_results s = take (n - 1) [(''1'', r1), (''2'', r1)] \<and>
           map py_int (dict_keys (sub_results s)) = take (n - 1) [Inr 1, Inr 2] \<and>
           llm_calls w =
             llm_calls w0 @
               take (n - 1)
                 [sequential_prompt ''1'' (context_str s0) (subs ! 0),
                  sequential_prompt ''2'' (context_str s0 @ agent_line ''1'' r1) (subs ! 1)] \<and>
           episodic_memory (memory_manager w) = episodic_memory (memory_manager w0)"
      using p empty 3 by (simp add: dict_keys_def py_int_1)
    then show ?thesis
      by blast
  next
    case 4
    with run have "invoke [break_task_node planner, sequential_agent_node llm ''1'',
                     sequential_agent_node llm ''2''] (w0, s0) = Inr (w, s)"
      by (simp add: create_sequential_reliable_graph_def)
    from through_agent_2 [OF this] obtain subs r1 r2 where
      p: "planner (task s0) = Inr subs"
         "w = w0\<lparr>llm_calls := llm_calls w0 @
                  [sequential_prompt ''1'' (context_str s0) (subs ! 0),
                   sequential_prompt ''2'' (context_str s0 @ agent_line ''1'' r1) (subs ! 1)]\<rparr>"
         "s = s0\<lparr>subtasks := subs, step := ''planning_complete'',
                 sub_results := dict_set (dict_set (sub_results s0) ''1'' r1) ''2'' r2,
                 context_str := context_str s0 @ agent_line ''1'' r1 @ agent_line ''2'' r2\<rparr>"
      by blast
    have "(n = 0 \<or> planner (task s0) = Inr subs) \<and>
           sub_results s = take (n - 1) [(''1'', r1), (''2'', r2)] \<and>
           map py_int (dict_keys (sub_results s)) = take (n - 1) [Inr 1, Inr 2] \<and>
           llm_calls w =
             llm_calls w0 @
               take (n - 1)
                 [sequential_prompt ''1'' (context_str s0) (subs ! 0),
                  sequential_prompt ''2'' (context_str s0 @ agent_line ''1'' r1) (subs ! 1)] \<and>
           episodic_memory (memory_manager w) = episodic_memory (memory_manager w0)"
      using p empty 4 by (simp add: dict_keys_def py_int_1 py_int_2)
    then show ?thesis
      by blast
  next
    case 5
    then have whole: "take n (create_sequential_reliable_graph planner llm merger) =
        [break_task_node planner, sequential_agent_node llm ''1'',
         sequential_agent_node llm ''2''] @ [merge_sequential_node merger]"
      by (simp add: create_sequential_reliable_graph_def)
    from run obtain wa sa where
      a: "invoke [break_task_node planner, sequential_agent_node llm ''1'',
                  sequential_agent_node llm ''2''] (w0, s0) = Inr (wa, sa)" and
      m: "merge_sequential_node merger (wa, sa) = Inr (w, s)"
      unfolding whole invoke_append by (auto split: sum.splits)
    from through_agent_2 [OF a] obtain subs r1 r2 where
      p: "planner (task s0) = Inr subs"
         "wa = w0\<lparr>llm_calls := llm_calls w0 @
                  [sequential_prompt ''1'' (context_str s0) (subs ! 0),
                   sequential_prompt ''2'' (context_str s0 @ agent_line ''1'' r1) (subs ! 1)]\<rparr>"
         "sa = s0\<lparr>subtasks := subs, step := ''planning_complete'',
                 sub_results := dict_set (dict_set (sub_results s0) ''1'' r1) ''2'' r2,
                 context_str := context_str s0 @ agent_line ''1'' r1 @ agent_line ''2'' r2\<rparr>"
      by blast
    from merge_sequential_returns [OF m] have q: "w = wa" "sub_results s = sub_results sa"
      by auto
    have "(n = 0 \<or> planner (task s0) = Inr subs) \<and>
           sub_results s = take (n - 1) [(''1'', r1), (''2'', r2)] \<and>
           map py_int (dict_keys (sub_results s)) = take (n - 1) [Inr 1, Inr 2] \<and>
           llm_calls w =
             llm_calls w0 @
               take (n - 1)
                 [sequential_prompt ''1'' (context_str s0) (subs ! 0),
                  sequential_prompt ''2'' (context_str s0 @ agent_line ''1'' r1) (subs ! 1)] \<and>
           episodic_memory (memory_manager w) = episodic_memory (memory_manager w0)"
      using p q empty 5 by (simp add: dict_keys_def py_int_1 py_int_2)
    then show ?thesis
      by blast
  qed
qed

lemma manager_add_episode_returns:
  assumes "manager_add_episode P d w = Inr w'"
  shows "\<exists>e. episodic_memory (memory_manager w') = episodic_memory (memory_manager w) @ [e] \<and>
             ep_id e = length (episodic_memory (memory_manager w)) \<and> ep_data e = d"
proof -
  from assms obtain mm' where
    add: "add_episode (embed_data P) (time_time P (clock_reads w)) (memory_manager w) d = Inr mm'"
    and w': "memory_manager w' = mm'"
    by (auto simp add: manager_add_episode_def split: sum.splits)
  from add_episode_appends [OF add] w' show ?thesis
    by auto
qed

lemma enhanced_agent_returns:
  assumes run: "enhanced_sequential_agent_node P llm agent_id (w, s) = Inr (w', s')"
    and pos: "py_int agent_id = Inr n"
  shows "\<exists>r e tsk. py_getitem (subtasks s) (n - 1) = Inr tsk \<and>
           sub_results s' = dict_set (sub_results s) agent_id r \<and>
           subtasks s' = subtasks s \<and>
           episodic_memory (memory_manager w') = episodic_memory (memory_manager w) @ [e] \<and>
           ep_id e = length (episodic_memory (memory_manager w)) \<and>
           dict_get (ep_data e) ''agent_id'' = Some (PyStr agent_id) \<and>
           dict_get (ep_data e) ''task'' = Some (PyStr tsk) \<and>
           dict_get (ep_data e) ''result'' = Some (PyStr r)"
proof -
  from run pos obtain tsk ctx r w1 where
    tsk: "py_getitem (subtasks s) (n - 1) = Inr tsk" and
    call: "chain_run llm (enhanced_prompt agent_id ctx tsk) w = Inr (r, w1)" and
    add: "manager_add_episode P (agent_episode_data agent_id tsk r ctx) w1 = Inr w'" and
    res: "sub_results s' = dict_set (sub_results s) agent_id r" "subtasks s' = subtasks s"
    by (auto simp add: enhanced_sequential_agent_node_def Let_def split: sum.splits)
  from call have same: "memory_manager w1 = memory_manager w"
    by (auto simp add: chain_run_def split: sum.splits)
  from manager_add_episode_returns [OF add] same obtain e where
    e: "episodic_memory (memory_manager w') = episodic_memory (memory_manager w) @ [e]"
       "ep_id e = length (episodic_memory (memory_manager w))"
       "ep_data e = agent_episode_data agent_id tsk r ctx"
    by auto
  have "dict_get (ep_data e) ''agent_id'' = Some (PyStr agent_id)"
       "dict_get (ep_data e) ''task'' = Some (PyStr tsk)"
       "dict_get (ep_data e) ''result'' = Some (PyStr r)"
    using e by (simp_all add: agent_episode_data_def dict_get_def)
  with tsk res e show ?thesis
    by blast
qed

lemma enhanced_agent_1_returns:
  assumes "enhanced_sequential_agent_node P llm ''1'' (w, s) = Inr (w', s')"
  shows "\<exists>r e. sub_results s' = dict_set (sub_results s) ''1'' r \<and>
           subtasks s' = subtasks s \<and>
           episodic_memory (memory_manager w') = episodic_memory (memory_manager w) @ [e] \<and>
           ep_id e = length (episodic_memory (memory_manager w)) \<and>
           dict_get (ep_data e) ''agent_id'' = Some (PyStr ''1'') \<and>
           dict_get (ep_data e) ''task'' = Some (PyStr (subtasks s ! 0)) \<and>
           dict_get (ep_data e) ''result'' = Some (PyStr r)"
  using enhanced_agent_returns [OF assms py_int_1]
  by (auto simp add: py_getitem_0 split: if_splits)

lemma enhanced_agent_2_returns:
  assumes "enhanced_sequential_agent_node P llm ''2'' (w, s) = Inr (w', s')"
  shows "\<exists>r e. sub_results s' = dict_set (sub_results s) ''2'' r \<and>
           subtasks s' = subtasks s \<and>
           episodic_memory (memory_manager w') = episodic_memory (memory_manager w) @ [e] \<and>
           ep_id e = length (episodic_memory (memory_manager w)) \<and>
           dict_get (ep_data e) ''agent_id'' = Some (PyStr ''2'') \<and>
           dict_get (ep_data e) ''task'' = Some (PyStr (subtasks s ! 1)) \<and>
           dict_get (ep_data e) ''result'' = Some (PyStr r)"
  using enhanced_agent_returns [OF assms py_int_2]
  by (auto simp add: py_getitem_1 split: if_splits)

lemma enhanced_agents_in_order:
  assumes run: "invoke (take k [enhanced_sequential_agent_node P llm ''1'',
                          enhanced_sequential_agent_node P llm ''2'']) (v0, t0) = Inr (v, t)"
    and empty: "sub_results t0 = []"
  shows "\<exists>new. episodic_memory (memory_manager v) = episodic_memory (memory_manager v0) @ new \<and>
           map py_int (dict_keys (sub_results t)) = take k [Inr 1, Inr 2] \<and>
           episode_entries new = result_entries (sub_results t) \<and>
           episode_tasks new =
             take k [Some (PyStr (subtasks t0 ! 0)), Some (PyStr (subtasks t0 ! 1))] \<and>
           map ep_id new =
             [length (episodic_memory (memory_manager v0))..<
              length (episodic_memory (memory_manager v0)) + length new]"
proof -
  consider "k = 0" | "k = 1" | "2 \<le> k"
    by linarith
  then show ?thesis
  proof cases
    case 1
    with run empty have "episodic_memory (memory_manager v) = episodic_memory (memory_manager v0) @ [] \<and>
           map py_int (dict_keys (sub_results t)) = take k [Inr 1, Inr 2] \<and>
           episode_entries [] = result_entries (sub_results t) \<and>
           episode_tasks [] =
             take k [Some (PyStr (subtasks t0 ! 0)), Some (PyStr (subtasks t0 ! 1))] \<and>
           map ep_id [] =
             [length (episodic_memory (memory_manager v0))..<
              length (episodic_memory (memory_manager v0)) + length ([] :: episode list)]"
      by (simp add: dict_keys_def episode_entries_def result_entries_def episode_tasks_def)
    then show ?thesis
      by blast
  next
    case 2
    with run have a: "enhanced_sequential_agent_node P llm ''1'' (v0, t0) = Inr (v, t)"
      by (simp split: sum.splits)
    from enhanced_agent_1_returns [OF a] empty obtain r1 e1 where
      one: "sub_results t = [(''1'', r1)]"
           "episodic_memory (memory_manager v) = episodic_memory (memory_manager v0) @ [e1]"
           "ep_id e1 = length (episodic_memory (memory_manager v0))"
           "dict_get (ep_data e1) ''agent_id'' = Some (PyStr ''1'')"
           "dict_get (ep_data e1) ''task'' = Some (PyStr (subtasks t0 ! 0))"
           "dict_get (ep_data e1) ''result'' = Some (PyStr r1)"
      by auto
    have "episodic_memory (memory_manager v) = episodic_memory (memory_manager v0) @ [e1] \<and>
           map py_int (dict_keys (sub_results t)) = take k [Inr 1, Inr 2] \<and>
           episode_entries [e1] = result_entries (sub_results t) \<and>
           episode_tasks [e1] =
             take k [Some (PyStr (subtasks t0 ! 0)), Some (PyStr (subtasks t0 ! 1))] \<and>
           map ep_id [e1] =
             [length (episodic_memory (memory_manager v0))..<
              length (episodic_memory (memory_manager v0)) + length [e1]]"
      using one 2
      by (simp add: dict_keys_def episode_entries_def result_entries_def episode_tasks_def py_int_1)
    then show ?thesis
      by blast
  next
    case 3
    with run obtain v1 t1 where
      a: "enhanced_sequential_agent_node P llm ''1'' (v0, t0) = Inr (v1, t1)" and
      b: "enhanced_sequential_agent_node P llm ''2'' (v1, t1) = Inr (v, t)"
      by (auto split: sum.splits)
    from enhanced_agent_1_returns [OF a] empty obtain r1 e1 where
      one: "sub_results t1 = [(''1'', r1)]" "subtasks t1 = subtasks t0"
           "episodic_memory (memory_manager v1) = episodic_memory (memory_manager v0) @ [e1]"
           "ep_id e1 = length (episodic_memory (memory_manager v0))"
           "dict_get (ep_data e1) ''agent_id'' = Some (PyStr ''1'')"
           "dict_get (ep_data e1) ''task'' = Some (PyStr (subtasks t0 ! 0))"
           "dict_get (ep_data e1) ''result'' = Some (PyStr r1)"
      by auto
    from enhanced_agent_2_returns [OF b] one obtain r2 e2 where
      two: "sub_results t = [(''1'', r1), (''2'', r2)]"
           "episodic_memory (memory_manager v) = episodic_memory (memory_manager v0) @ [e1, e2]"
           "ep_id e2 = Suc (length (episodic_memory (memory_manager v0)))"
           "dict_get (ep_data e2) ''agent_id'' = Some (PyStr ''2'')"
           "dict_get (ep_data e2) ''task'' = Some (PyStr (subtasks t0 ! 1))"
           "dict_get (ep_data e2) ''result'' = Some (PyStr r2)"
      by auto
    have "episodic_memory (memory_manager v) = episodic_memory (memory_manager v0) @ [e1, e2] \<and>
           map py_int (dict_keys (sub_results t)) = take k [Inr 1, Inr 2] \<and>
           episode_entries [e1, e2] = result_entries (sub_results t) \<and>
           episode_tasks [e1, e2] =
             take k [Some (PyStr (subtasks t0 ! 0)), Some (PyStr (subtasks t0 ! 1))] \<and>
           map ep_id [e1, e2] =
             [length (episodic_memory (memory_manager v0))..<
              length (episodic_memory (memory_manager v0)) + length [e1, e2]]"
      using one two 3
      by (simp add: dict_keys_def episode_entries_def result_entries_def episode_tasks_def
            py_int_1 py_int_2 upt_rec)
    then show ?thesis
      by blast
  qed
qed

lemma enhanced_agent_as_written_raises:
  assumes "retrieve_relevant_episodes Q = retrieve_as_written embed_query"
  shows "\<exists>e. enhanced_sequential_agent_node Q llm agent_id c = Inl e"
  using assms
  by (cases c)
     (auto simp add: enhanced_sequential_agent_node_def retrieve_as_written_def split: sum.splits)

lemma take_append_short: "k \<le> length xs \<Longrightarrow> take k (xs @ ys) = take k xs"
  by simp

lemma take_append_long: "length xs \<le> k \<Longrightarrow> take k (xs @ ys) = xs @ take (k - length xs) ys"
  by simp

lemma consolidate_returns:
  assumes "consolidate_memory_node P (w, s) = Inr (w', s')"
  shows "w' = w \<and> s' = s"
  using assms
  by (auto simp add: consolidate_memory_node_def update_semantic_memory_def split: sum.splits)

lemma enhanced_path_in_order:
  assumes run: "invoke (take k (drop 2 (create_sequential_reliable_enhanced_graph planner
                   initialize P llm merger))) (v0, t0) = Inr (v, t)"
    and empty: "sub_results t0 = []"
  shows "\<exists>new. episodic_memory (memory_manager v) = episodic_memory (memory_manager v0) @ new \<and>
           map py_int (dict_keys (sub_results t)) = take k [Inr 1, Inr 2] \<and>
           episode_entries new = result_entries (sub_results t) \<and>
           episode_tasks new =
             take k [Some (PyStr (subtasks t0 ! 0)), Some (PyStr (subtasks t0 ! 1))] \<and>
           map ep_id new =
             [length (episodic_memory (memory_manager v0))..<
              length (episodic_memory (memory_manager v0)) + length new]"
proof -
  let ?agents = "[enhanced_sequential_agent_node P llm ''1'',
                  enhanced_sequential_agent_node P llm ''2'']"
  have path: "drop 2 (create_sequential_reliable_enhanced_graph planner initialize P llm merger) =
      ?agents @ [consolidate_memory_node P, merge_enhanced_node merger]"
    by (simp add: create_sequential_reliable_enhanced_graph_def)
  consider "k \<le> 2" | "k = 3" | "4 \<le> k"
    by linarith
  then show ?thesis
  proof cases
    case 1
    then have "take k (?agents @ [consolidate_memory_node P, merge_enhanced_node merger]) =
        take k ?agents"
      by (intro take_append_short) simp
    with run path have "invoke (take k ?agents) (v0, t0) = Inr (v, t)"
      by simp
    from enhanced_agents_in_order [OF this empty] show ?thesis .
  next
    case 2
    then have "take k (?agents @ [consolidate_memory_node P, merge_enhanced_node merger]) =
        ?agents @ take (k - length ?agents) [consolidate_memory_node P, merge_enhanced_node merger]"
      by (intro take_append_long) simp
    with run path 2 have "invoke [enhanced_sequential_agent_node P llm ''1'',
        enhanced_sequential_agent_node P llm ''2'', consolidate_memory_node P] (v0, t0) =
        Inr (v, t)"
      by simp
    then obtain v1 t1 v2 t2 where
      a1: "enhanced_sequential_agent_node P llm ''1'' (v0, t0) = Inr (v1, t1)" and
      a2: "enhanced_sequential_agent_node P llm ''2'' (v1, t1) = Inr (v2, t2)" and
      c: "consolidate_memory_node P (v2, t2) = Inr (v, t)"
      by (auto split: sum.splits)
    from a1 a2 have a: "invoke (take 2 ?agents) (v0, t0) = Inr (v2, t2)"
      by simp
    from consolidate_returns [OF c] have same: "v = v2" "t = t2"
      by simp_all
    from enhanced_agents_in_order [OF a empty] same 2 show ?thesis
      by simp
  next
    case 3
    then have "take k (?agents @ [consolidate_memory_node P, merge_enhanced_node merger]) =
        ?agents @ take (k - length ?agents) [consolidate_memory_node P, merge_enhanced_node merger]"
      by (intro take_append_long) simp
    with run path 3 have "invoke [enhanced_sequential_agent_node P llm ''1'',
        enhanced_sequential_agent_node P llm ''2'', consolidate_memory_node P,
        merge_enhanced_node merger] (v0, t0) = Inr (v, t)"
      by simp
    then obtain v1 t1 v2 t2 v3 t3 where
      a1: "enhanced_sequential_agent_node P llm ''1'' (v0, t0) = Inr (v1, t1)" and
      a2: "enhanced_sequential_agent_node P llm ''2'' (v1, t1) = Inr (v2, t2)" and
      c: "consolidate_memory_node P (v2, t2) = Inr (v3, t3)" and
      m: "merge_enhanced_node merger (v3, t3) = Inr (v, t)"
      by (auto split: sum.splits)
    from a1 a2 have a: "invoke (take 2 ?agents) (v0, t0) = Inr (v2, t2)"
      by simp
    from consolidate_returns [OF c] have same: "v3 = v2" "t3 = t2"
      by simp_all
    from merge_sequential_returns [OF m [unfolded merge_enhanced_node_def]] same have
      fin: "v = v2" "sub_results t = sub_results t2"
      by auto
    from enhanced_agents_in_order [OF a empty] fin 3 show ?thesis
      by simp
  qed
qed

text \<open>
  Claim C3. At every point of every run of the sequential graph, started with
  empty results: the prompts answered so far are the prompt for the first subtask
  of the plan, then the prompt for the second, and the entries of the results are
  those for position 1, then position 2, each holding the answer to its prompt.
  (The point \<open>n\<close> of a run is the configuration after the first \<open>n\<close> nodes of the
  graph.) This graph creates no episode. In the graph with memory, from the first
  agent on and whatever the memory methods return: the episodes created are, in
  creation order and with consecutive ids, the entries of the results in completion
  order, each for the subtask at its position of the plan. With the two memory
  methods as the sources have them, an agent of that graph never returns, so no run
  of it completes a subtask or creates an episode.
\<close>

theorem completion_order_is_plan_order:
  "(invoke (take n (create_sequential_reliable_graph planner llm merger)) (w0, s0) = Inr (w, s) \<and>
    sub_results s0 = [] \<longrightarrow>
      (\<exists>subs r1 r2.
          (n = 0 \<or> planner (task s0) = Inr subs) \<and>
          sub_results s = take (n - 1) [(''1'', r1), (''2'', r2)] \<and>
          map py_int (dict_keys (sub_results s)) = take (n - 1) [Inr 1, Inr 2] \<and>
          llm_calls w =
            llm_calls w0 @
              take (n - 1)
                [sequential_prompt ''1'' (context_str s0) (subs ! 0),
                 sequential_prompt ''2'' (context_str s0 @ agent_line ''1'' r1) (subs ! 1)] \<and>
          episodic_memory (memory_manager w) = episodic_memory (memory_manager w0))) \<and>
   (invoke (take k (drop 2 (create_sequential_reliable_enhanced_graph planner' initialize P llm'
               merger'))) (v0, t0) = Inr (v, t) \<and>
    sub_results t0 = [] \<longrightarrow>
      (\<exists>new.
          episodic_memory (memory_manager v) = episodic_memory (memory_manager v0) @ new \<and>
          map py_int (dict_keys (sub_results t)) = take k [Inr 1, Inr 2] \<and>
          episode_entries new = result_entries (sub_results t) \<and>
          episode_tasks new =
            take k [Some (PyStr (subtasks t0 ! 0)), Some (PyStr (subtasks t0 ! 1))] \<and>
          map ep_id new =
            [length (episodic_memory (memory_manager v0))..<
             length (episodic_memory (memory_manager v0)) + length new])) \<and>
   (retrieve_relevant_episodes Q = retrieve_as_written embed_query \<longrightarrow>
      (\<exists>e. enhanced_sequential_agent_node Q llm'' agent_id c = Inl e))"
proof (intro conjI impI)
  assume "invoke (take n (create_sequential_reliable_graph planner llm merger)) (w0, s0) =
            Inr (w, s) \<and> sub_results s0 = []"
  then show "\<exists>subs r1 r2.
          (n = 0 \<or> planner (task s0) = Inr subs) \<and>
          sub_results s = take (n - 1) [(''1'', r1), (''2'', r2)] \<and>
          map py_int (dict_keys (sub_results s)) = take (n - 1) [Inr 1, Inr 2] \<and>
          llm_calls w =
            llm_calls w0 @
              take (n - 1)
                [sequential_prompt ''1'' (context_str s0) (subs ! 0),
                 sequential_prompt ''2'' (context_str s0 @ agent_line ''1'' r1) (subs ! 1)] \<and>
          episodic_memory (memory_manager w) = episodic_memory (memory_manager w0)"
    using reliable_prefix_order by blast
next
  assume "invoke (take k (drop 2 (create_sequential_reliable_enhanced_graph planner' initialize P
                    llm' merger'))) (v0, t0) = Inr (v, t) \<and> sub_results t0 = []"
  then show "\<exists>new.
          episodic_memory (memory_manager v) = episodic_memory (memory_manager v0) @ new \<and>
          map py_int (dict_keys (sub_results t)) = take k [Inr 1, Inr 2] \<and>
          episode_entries new = result_entries (sub_results t) \<and>
          episode_tasks new =
            take k [Some (PyStr (subtasks t0 ! 0)), Some (PyStr (subtasks t0 ! 1))] \<and>
          map ep_id new =
            [length (episodic_memory (memory_manager v0))..<
             length (episodic_memory (memory_manager v0)) + length new]"
    using enhanced_path_in_order by blast
next
  assume "retrieve_relevant_episodes Q = retrieve_as_written embed_query"
  then show "\<exists>e. enhanced_sequential_agent_node Q llm'' agent_id c = Inl e"
    by (rule enhanced_agent_as_written_raises)
qed

theorem completion_order_is_plan_order_witness:
  "invoke (take 4 (create_sequential_reliable_graph two_subtask_plan ok_llm join_merger))
       (empty_world, initial_state ''t'') =
     Inr (empty_world\<lparr>llm_calls :=
            [sequential_prompt ''1'' [] ''a'',
             sequential_prompt ''2'' (agent_line ''1'' ''ok'') ''b'']\<rparr>,
          (initial_state ''t'')\<lparr>subtasks := [''a'', ''b''], step := ''completed'',
             sub_results := [(''1'', ''ok''), (''2'', ''ok'')],
             context_str := agent_line ''1'' ''ok'' @ agent_line ''2'' ''ok'',
             final_result := ''okok''\<rparr>) \<and>
   sub_results (initial_state ''t'') = [] \<and>
   map py_int (dict_keys [(''1'', ''ok''), (''2'', ''ok'')]) = [Inr 1, Inr 2] \<and>
   invoke (take 2 (drop 2 (create_sequential_reliable_enhanced_graph two_subtask_plan Inr
              plain_ports ok_llm join_merger))) (empty_world, two_subtask_state) =
     Inr (empty_world\<lparr>llm_calls :=
            [enhanced_prompt ''1'' (enhanced_context [] [] []) ''a'',
             enhanced_prompt ''2'' (enhanced_context (agent_line ''1'' ''ok'') [] []) ''b''],
            memory_manager :=
              \<lparr> episodic_memory = [first_episode, second_episode], semantic_memory = [] \<rparr>,
            clock_reads := 2\<rparr>,
          two_subtask_state\<lparr>sub_results := [(''1'', ''ok''), (''2'', ''ok'')],
            context_str := agent_line ''1'' ''ok'' @ agent_line ''2'' ''ok''\<rparr>) \<and>
   sub_results two_subtask_state = [] \<and>
   episode_entries [first_episode, second_episode] =
     result_entries [(''1'', ''ok''), (''2'', ''ok'')] \<and>
   episode_tasks [first_episode, second_episode] = [Some (PyStr ''a''), Some (PyStr ''b'')] \<and>
   map ep_id [first_episode, second_episode] = [0, 1] \<and>
   retrieve_relevant_episodes as_written_ports = retrieve_as_written (\<lambda>q. Inr []) \<and>
   enhanced_sequential_agent_node as_written_ports ok_llm ''1'' (empty_world, two_subtask_state) =
     Inl NameError"
proof -
  let ?w = "empty_world\<lparr>llm_calls :=
            [sequential_prompt ''1'' [] ''a'',
             sequential_prompt ''2'' (agent_line ''1'' ''ok'') ''b'']\<rparr>"
  let ?s = "(initial_state ''t'')\<lparr>subtasks := [''a'', ''b''], step := ''completed'',
             sub_results := [(''1'', ''ok''), (''2'', ''ok'')],
             context_str := agent_line ''1'' ''ok'' @ agent_line ''2'' ''ok'',
             final_result := ''okok''\<rparr>"
  let ?v = "empty_world\<lparr>llm_calls :=
            [enhanced_prompt ''1'' (enhanced_context [] [] []) ''a'',
             enhanced_prompt ''2'' (enhanced_context (agent_line ''1'' ''ok'') [] []) ''b''],
            memory_manager :=
              \<lparr> episodic_memory = [first_episode, second_episode], semantic_memory = [] \<rparr>,
            clock_reads := 2\<rparr>"
  let ?t = "two_subtask_state\<lparr>sub_results := [(''1'', ''ok''), (''2'', ''ok'')],
            context_str := agent_line ''1'' ''ok'' @ agent_line ''2'' ''ok''\<rparr>"
  have run: "invoke (take 4 (create_sequential_reliable_graph two_subtask_plan ok_llm join_merger))
       (empty_world, initial_state ''t'') = Inr (?w, ?s)"
    by (simp add: create_sequential_reliable_graph_def break_task_node_def sequential_agent_1
          sequential_agent_2 two_subtask_plan_def plan_of_def ok_llm_def initial_state_def
          empty_world_def merge_sequential_node_def join_merger_def two_entries_complete)
  have empty: "sub_results (initial_state ''t'') = []"
    by (simp add: initial_state_def)
  have n1: "enhanced_sequential_agent_node plain_ports ok_llm ''1'' (empty_world, two_subtask_state) =
     Inr (empty_world\<lparr>llm_calls := [enhanced_prompt ''1'' (enhanced_context [] [] []) ''a''],
            memory_manager := \<lparr> episodic_memory = [first_episode], semantic_memory = [] \<rparr>,
            clock_reads := 1\<rparr>,
          two_subtask_state\<lparr>sub_results := [(''1'', ''ok'')],
            context_str := agent_line ''1'' ''ok''\<rparr>)"
    by (simp add: enhanced_sequential_agent_node_def Let_def py_int_1 py_getitem_0 chain_run_def
          manager_add_episode_def add_episode_def plain_ports_def ok_llm_def first_episode_def
          two_subtask_state_def initial_state_def empty_world_def new_memory_manager_def)
  have n2: "enhanced_sequential_agent_node plain_ports ok_llm ''2''
       (empty_world\<lparr>llm_calls := [enhanced_prompt ''1'' (enhanced_context [] [] []) ''a''],
          memory_manager := \<lparr> episodic_memory = [first_episode], semantic_memory = [] \<rparr>,
          clock_reads := 1\<rparr>,
        two_subtask_state\<lparr>sub_results := [(''1'', ''ok'')],
          context_str := agent_line ''1'' ''ok''\<rparr>) = Inr (?v, ?t)"
    by (simp add: enhanced_sequential_agent_node_def Let_def py_int_2 py_getitem_1 chain_run_def
          manager_add_episode_def add_episode_def plain_ports_def ok_llm_def second_episode_def
          two_subtask_state_def initial_state_def empty_world_def new_memory_manager_def)
  have path: "take 2 (drop 2 (create_sequential_reliable_enhanced_graph two_subtask_plan Inr
              plain_ports ok_llm join_merger)) =
      [enhanced_sequential_agent_node plain_ports ok_llm ''1'',
       enhanced_sequential_agent_node plain_ports ok_llm ''2'']"
    by (simp add: create_sequential_reliable_enhanced_graph_def)
  have erun: "invoke (take 2 (drop 2 (create_sequential_reliable_enhanced_graph two_subtask_plan
              Inr plain_ports ok_llm join_merger))) (empty_world, two_subtask_state) =
      Inr (?v, ?t)"
    unfolding path using n1 n2 by simp
  have empty': "sub_results two_subtask_state = []"
    by (simp add: two_subtask_state_def initial_state_def)
  have written: "retrieve_relevant_episodes as_written_ports = retrieve_as_written (\<lambda>q. Inr [])"
    by (simp add: as_written_ports_def)
  have raises: "enhanced_sequential_agent_node as_written_ports ok_llm ''1''
      (empty_world, two_subtask_state) = Inl NameError"
    by (simp add: enhanced_sequential_agent_node_def Let_def py_int_1 py_getitem_0
          as_written_ports_def retrieve_as_written_def two_subtask_state_def initial_state_def
          empty_world_def)
  note inst = completion_order_is_plan_order
      [where n = 4 and planner = two_subtask_plan and llm = ok_llm and merger = join_merger
         and ?w0.0 = empty_world and ?s0.0 = "initial_state ''t''" and w = ?w and s = ?s
         and k = 2 and planner' = two_subtask_plan and initialize = Inr and P = plain_ports
         and llm' = ok_llm and merger' = join_merger and ?v0.0 = empty_world
         and ?t0.0 = two_subtask_state and v = ?v and t = ?t
         and Q = as_written_ports and embed_query = "\<lambda>q. Inr []" and llm'' = ok_llm
         and agent_id = "''1''" and c = "(empty_world, two_subtask_state)"]
  from inst run empty have keys: "map py_int (dict_keys (sub_results ?s)) = take (4 - 1) [Inr 1, Inr 2]"
    by blast
  from inst erun empty' obtain new where
    new: "episodic_memory (memory_manager ?v) = episodic_memory (memory_manager empty_world) @ new"
      "episode_entries new = result_entries (sub_results ?t)"
      "episode_tasks new =
         take 2 [Some (PyStr (subtasks two_subtask_state ! 0)),
                 Some (PyStr (subtasks two_subtask_state ! 1))]"
      "map ep_id new =
         [length (episodic_memory (memory_manager empty_world))..<
          length (episodic_memory (memory_manager empty_world)) + length new]"
    by blast
  from new(1) have is_new: "new = [first_episode, second_episode]"
    by (simp add: empty_world_def new_memory_manager_def)
  have k: "map py_int (dict_keys [(''1'', ''ok''), (''2'', ''ok'')]) = [Inr 1, Inr 2]"
    using keys by simp
  have e: "episode_entries [first_episode, second_episode] =
      result_entries [(''1'', ''ok''), (''2'', ''ok'')]"
    using new(2) is_new by simp
  have ts: "episode_tasks [first_episode, second_episode] =
      [Some (PyStr ''a''), Some (PyStr ''b'')]"
    using new(3) is_new by (simp add: two_subtask_state_def)
  have ids: "map ep_id [first_episode, second_episode] = [0, 1]"
    using new(4) is_new by (simp add: empty_world_def new_memory_manager_def upt_conv_Cons
        del: upt_Suc)
  show ?thesis
    by (intro conjI) (fact run, fact empty, fact k, fact erun, fact empty', fact e, fact ts,
        fact ids, fact written, fact raises)
qed

section \<open>Where compression runs, and what it touches\<close>

lemma compressed_agent_success:
  assumes "compressed_agent_node llm load_memory agent_id (w, s) = Inr (w', s')"
  shows "long_term_memory w' = long_term_memory w \<and> context_str s' = context_str s"
  using assms
  by (auto simp add: compressed_agent_node_def chain_run_def split: sum.splits)

lemma break_task_success:
  assumes "break_task_node planner (w, s) = Inr (w', s')"
  shows "w' = w \<and> context_str s' = context_str s \<and> sub_results s' = sub_results s"
  using assms by (auto simp add: break_task_node_def split: sum.splits)

lemma merge_compressed_success:
  assumes "merge_compressed_node merger (w, s) = Inr (w', s')"
  shows "w' = w \<and> context_str s' = context_str s"
  using assms
  by (auto simp add: merge_compressed_node_def merge_sequential_node_def
        split: sum.splits if_splits)

lemma compress_context_saves:
  assumes "compress_context_node llm (w, s) = Inr (w', s')"
  shows "\<exists>c. long_term_memory w' = long_term_memory w @ [(context_str s, c)] \<and>
             context_str s' = context_str s"
  using assms
  by (auto simp add: compress_context_node_def chain_run_def split: sum.splits)

lemma compress_context_step:
  assumes "compress_context_node llm (w, s) = Inr (w', s')"
  shows "\<exists>c. llm_calls w' = llm_calls w @ [compression_prompt (context_str s)] \<and>
             long_term_memory w' = long_term_memory w @ [(context_str s, c)] \<and>
             compressed_context s' = c \<and> context_str s' = context_str s \<and>
             subtasks s' = subtasks s"
  using assms
  by (auto simp add: compress_context_node_def chain_run_def split: sum.splits)

lemma compressed_agent_1_step:
  assumes "compressed_agent_node llm load_memory ''1'' (w, s) = Inr (w', s')"
  shows "\<exists>h. llm_calls w' =
               llm_calls w @ [compressed_prompt ''1'' (compressed_context s) h (subtasks s ! 0)] \<and>
             long_term_memory w' = long_term_memory w \<and>
             compressed_context s' = compressed_context s \<and> context_str s' = context_str s \<and>
             subtasks s' = subtasks s"
  using assms
  by (auto simp add: compressed_agent_node_def py_int_1 py_getitem_0 chain_run_def
        split: sum.splits if_splits)

lemma compressed_agent_2_step:
  assumes "compressed_agent_node llm load_memory ''2'' (w, s) = Inr (w', s')"
  shows "\<exists>h. llm_calls w' =
               llm_calls w @ [compressed_prompt ''2'' (compressed_context s) h (subtasks s ! 1)] \<and>
             long_term_memory w' = long_term_memory w \<and>
             compressed_context s' = compressed_context s \<and> context_str s' = context_str s \<and>
             subtasks s' = subtasks s"
  using assms
  by (auto simp add: compressed_agent_node_def py_int_2 py_getitem_1 chain_run_def
        split: sum.splits if_splits)

lemma merge_compressed_step:
  assumes "merge_compressed_node merger (w, s) = Inr (w', s')"
  shows "w' = w \<and> compressed_context s' = compressed_context s"
  using assms
  by (auto simp add: merge_compressed_node_def merge_sequential_node_def
        split: sum.splits if_splits)

lemma compressed_graph_interleaves:
  assumes run: "invoke (create_sequential_compressed_graph planner llm load_memory merger) (w0, s0) =
                  Inr (w, s)"
  shows "\<exists>subs c1 c2 c3 h1 h2.
           planner (task s0) = Inr subs \<and>
           llm_calls w =
             llm_calls w0 @
               [compression_prompt (context_str s0),
                compressed_prompt ''1'' c1 h1 (subs ! 0),
                compression_prompt (context_str s0),
                compressed_prompt ''2'' c2 h2 (subs ! 1),
                compression_prompt (context_str s0)] \<and>
           long_term_memory w =
             long_term_memory w0 @
               [(context_str s0, c1), (context_str s0, c2), (context_str s0, c3)] \<and>
           compressed_context s = c3"
proof -
  from invoke_Cons_success [OF run [unfolded create_sequential_compressed_graph_def]]
  obtain wa sa where
    a: "break_task_node planner (w0, s0) = Inr (wa, sa)" and
    ra: "invoke [compress_context_node llm, compressed_agent_node llm load_memory ''1'',
           compress_context_node llm, compressed_agent_node llm load_memory ''2'',
           compress_context_node llm, merge_compressed_node merger] (wa, sa) = Inr (w, s)"
    by blast
  from invoke_Cons_success [OF ra] obtain wb sb where
    b: "compress_context_node llm (wa, sa) = Inr (wb, sb)" and
    rb: "invoke [compressed_agent_node llm load_memory ''1'',
           compress_context_node llm, compressed_agent_node llm load_memory ''2'',
           compress_context_node llm, merge_compressed_node merger] (wb, sb) = Inr (w, s)"
    by blast
  from invoke_Cons_success [OF rb] obtain wc sc where
    c: "compressed_agent_node llm load_memory ''1'' (wb, sb) = Inr (wc, sc)" and
    rc: "invoke [compress_context_node llm, compressed_agent_node llm load_memory ''2'',
           compress_context_node llm, merge_compressed_node merger] (wc, sc) = Inr (w, s)"
    by blast
  from invoke_Cons_success [OF rc] obtain wd sd where
    d: "compress_context_node llm (wc, sc) = Inr (wd, sd)" and
    rd: "invoke [compressed_agent_node llm load_memory ''2'',
           compress_context_node llm, merge_compressed_node merger] (wd, sd) = Inr (w, s)"
    by blast
  from invoke_Cons_success [OF rd] obtain we se where
    e: "compressed_agent_node llm load_memory ''2'' (wd, sd) = Inr (we, se)" and
    re: "invoke [compress_context_node llm, merge_compressed_node merger] (we, se) = Inr (w, s)"
    by blast
  from invoke_Cons_success [OF re] obtain wf sf where
    f: "compress_context_node llm (we, se) = Inr (wf, sf)" and
    rf: "invoke [merge_compressed_node merger] (wf, sf) = Inr (w, s)"
    by blast
  from invoke_Cons_success [OF rf] obtain wg sg where
    g: "merge_compressed_node merger (wf, sf) = Inr (wg, sg)" and
    rg: "invoke [] (wg, sg) = Inr (w, s)"
    by blast
  from break_task_returns [OF a] obtain subs where
    1: "planner (task s0) = Inr subs" "llm_calls wa = llm_calls w0"
       "long_term_memory wa = long_term_memory w0" "context_str sa = context_str s0"
       "subtasks sa = subs"
    by auto
  from compress_context_step [OF b] 1 obtain c1 where
    2: "llm_calls wb = llm_calls w0 @ [compression_prompt (context_str s0)]"
       "long_term_memory wb = long_term_memory w0 @ [(context_str s0, c1)]"
       "compressed_context sb = c1" "context_str sb = context_str s0" "subtasks sb = subs"
    by auto
  from compressed_agent_1_step [OF c] 2 obtain h1 where
    3: "llm_calls wc = llm_calls w0 @
          [compression_prompt (context_str s0), compressed_prompt ''1'' c1 h1 (subs ! 0)]"
       "long_term_memory wc = long_term_memory w0 @ [(context_str s0, c1)]"
       "context_str sc = context_str s0" "subtasks sc = subs"
    by auto
  from compress_context_step [OF d] 3 obtain c2 where
    4: "llm_calls wd = llm_calls w0 @
          [compression_prompt (context_str s0), compressed_prompt ''1'' c1 h1 (subs ! 0),
           compression_prompt (context_str s0)]"
       "long_term_memory wd = long_term_memory w0 @ [(context_str s0, c1), (context_str s0, c2)]"
       "compressed_context sd = c2" "context_str sd = context_str s0" "subtasks sd = subs"
    by auto
  from compressed_agent_2_step [OF e] 4 obtain h2 where
    5: "llm_calls we = llm_calls w0 @
          [compression_prompt (context_str s0), compressed_prompt ''1'' c1 h1 (subs ! 0),
           compression_prompt (context_str s0), compressed_prompt ''2'' c2 h2 (subs ! 1)]"
       "long_term_memory we = long_term_memory w0 @ [(context_str s0, c1), (context_str s0, c2)]"
       "context_str se = context_str s0"
    by auto
  from compress_context_step [OF f] 5 obtain c3 where
    6: "llm_calls wf = llm_calls w0 @
          [compression_prompt (context_str s0), compressed_prompt ''1'' c1 h1 (subs ! 0),
           compression_prompt (context_str s0), compressed_prompt ''2'' c2 h2 (subs ! 1),
           compression_prompt (context_str s0)]"
       "long_term_memory wf =
          long_term_memory w0 @ [(context_str s0, c1), (context_str s0, c2), (context_str s0, c3)]"
       "compressed_context sf = c3"
    by auto
  from merge_compressed_step [OF g] rg have "w = wf" "compressed_context s = compressed_context sf"
    by simp_all
  with 1 6 show ?thesis
    by blast
qed

text \<open>
  Claim C7, amended. A compression step changes \<open>compressed_context\<close> and nothing
  else of the state (results, subtasks and task are as before), answers one prompt
  and saves one record into the long-term memory. The compressed graph runs it
  unconditionally at three fixed places - before agent 1, between the agents, after
  agent 2 - whatever the length of the context: in a run that returns, the prompts
  answered are, in this order, a compression prompt, the prompt of agent 1 for the
  first planned subtask (carrying the first compression), a compression prompt, the
  prompt of agent 2 for the second planned subtask (carrying the second
  compression), and a compression prompt; three records are saved, each for the
  context the run started with, and the last compression is the compressed context
  of the final state.
\<close>

theorem compression_runs_at_fixed_places:
  "(compress_context_node llm (w, s) = Inr (w', s') \<longrightarrow>
      s' = s\<lparr>compressed_context := compressed_context s'\<rparr> \<and>
      sub_results s' = sub_results s \<and> subtasks s' = subtasks s \<and> task s' = task s \<and>
      memory_manager w' = memory_manager w \<and>
      long_term_memory w' = long_term_memory w @ [(context_str s, compressed_context s')]) \<and>
   (invoke (create_sequential_compressed_graph planner llm load_memory merger) (w0, s0) =
      Inr (w1, s1) \<longrightarrow>
      (\<exists>subs c1 c2 c3 h1 h2.
          planner (task s0) = Inr subs \<and>
          llm_calls w1 =
            llm_calls w0 @
              [compression_prompt (context_str s0),
               compressed_prompt ''1'' c1 h1 (subs ! 0),
               compression_prompt (context_str s0),
               compressed_prompt ''2'' c2 h2 (subs ! 1),
               compression_prompt (context_str s0)] \<and>
          long_term_memory w1 =
            long_term_memory w0 @
              [(context_str s0, c1), (context_str s0, c2), (context_str s0, c3)] \<and>
          compressed_context s1 = c3))"
proof (intro conjI impI)
  assume run: "compress_context_node llm (w, s) = Inr (w', s')"
  note ok = compress_context_success [OF run]
  from ok show eq: "s' = s\<lparr>compressed_context := compressed_context s'\<rparr>"
    by simp
  have "sub_results (s\<lparr>compressed_context := compressed_context s'\<rparr>) = sub_results s"
       "subtasks (s\<lparr>compressed_context := compressed_context s'\<rparr>) = subtasks s"
       "task (s\<lparr>compressed_context := compressed_context s'\<rparr>) = task s"
    by simp_all
  with eq show "sub_results s' = sub_results s" "subtasks s' = subtasks s" "task s' = task s"
    by simp_all
  from ok have w': "w' = w\<lparr>llm_calls := llm_calls w @ [compression_prompt (context_str s)],
                long_term_memory := long_term_memory w @ [(context_str s, compressed_context s')]\<rparr>"
    by simp
  show "memory_manager w' = memory_manager w"
    by (subst w') simp
  show "long_term_memory w' = long_term_memory w @ [(context_str s, compressed_context s')]"
    by (subst w') simp
next
  assume "invoke (create_sequential_compressed_graph planner llm load_memory merger) (w0, s0) =
      Inr (w1, s1)"
  then show "\<exists>subs c1 c2 c3 h1 h2.
          planner (task s0) = Inr subs \<and>
          llm_calls w1 =
            llm_calls w0 @
              [compression_prompt (context_str s0),
               compressed_prompt ''1'' c1 h1 (subs ! 0),
               compression_prompt (context_str s0),
               compressed_prompt ''2'' c2 h2 (subs ! 1),
               compression_prompt (context_str s0)] \<and>
          long_term_memory w1 =
            long_term_memory w0 @
              [(context_str s0, c1), (context_str s0, c2), (context_str s0, c3)] \<and>
          compressed_context s1 = c3"
    by (rule compressed_graph_interleaves)
qed

lemma compressed_run_on_example:
  "invoke (create_sequential_compressed_graph two_subtask_plan ok_llm no_history join_merger)
       (empty_world, initial_state ''t'') =
     Inr (empty_world\<lparr>llm_calls :=
            [compression_prompt [], compressed_prompt ''1'' ''ok'' [] ''a'',
             compression_prompt [], compressed_prompt ''2'' ''ok'' [] ''b'',
             compression_prompt []],
            long_term_memory := [([], ''ok''), ([], ''ok''), ([], ''ok'')]\<rparr>,
          (initial_state ''t'')\<lparr>subtasks := [''a'', ''b''], step := ''completed'',
             sub_results := [(''1'', ''ok''), (''2'', ''ok'')],
             compressed_context := ''ok'', final_result := ''okok''\<rparr>)"
  by (simp add: create_sequential_compressed_graph_def break_task_node_def
        compress_context_node_def compressed_agent_node_def merge_compressed_node_def
        merge_sequential_node_def chain_run_def py_int_1 py_int_2 py_getitem_0 py_getitem_1
        two_subtask_plan_def plan_of_def ok_llm_def no_history_def join_merger_def
        initial_state_def empty_world_def two_entries_complete)

theorem compression_runs_at_fixed_places_witness:
  "compress_context_node ok_llm (empty_world, abc_state) =
     Inr (empty_world\<lparr>llm_calls := [compression_prompt ''abc''],
            long_term_memory := [(''abc'', ''ok'')]\<rparr>,
          abc_state\<lparr>compressed_context := ''ok''\<rparr>) \<and>
   sub_results (abc_state\<lparr>compressed_context := ''ok''\<rparr>) = sub_results abc_state \<and>
   invoke (create_sequential_compressed_graph two_subtask_plan ok_llm no_history join_merger)
       (empty_world, initial_state ''t'') =
     Inr (empty_world\<lparr>llm_calls :=
            [compression_prompt [], compressed_prompt ''1'' ''ok'' [] ''a'',
             compression_prompt [], compressed_prompt ''2'' ''ok'' [] ''b'',
             compression_prompt []],
            long_term_memory := [([], ''ok''), ([], ''ok''), ([], ''ok'')]\<rparr>,
          (initial_state ''t'')\<lparr>subtasks := [''a'', ''b''], step := ''completed'',
             sub_results := [(''1'', ''ok''), (''2'', ''ok'')],
             compressed_context := ''ok'', final_result := ''okok''\<rparr>) \<and>
   length (long_term_memory
     (empty_world\<lparr>llm_calls :=
            [compression_prompt [], compressed_prompt ''1'' ''ok'' [] ''a'',
             compression_prompt [], compressed_prompt ''2'' ''ok'' [] ''b'',
             compression_prompt []],
            long_term_memory := [([], ''ok''), ([], ''ok''), ([], ''ok'')]\<rparr>)) = 3"
proof -
  have c: "compress_context_node ok_llm (empty_world, abc_state) =
     Inr (empty_world\<lparr>llm_calls := [compression_prompt ''abc''],
            long_term_memory := [(''abc'', ''ok'')]\<rparr>,
          abc_state\<lparr>compressed_context := ''ok''\<rparr>)"
    by (simp add: compress_context_node_def chain_run_def ok_llm_def abc_state_def
          initial_state_def empty_world_def)
  from compression_runs_at_fixed_places
         [where llm = ok_llm and w = empty_world and s = abc_state
            and w' = "empty_world\<lparr>llm_calls := [compression_prompt ''abc''],
                        long_term_memory := [(''abc'', ''ok'')]\<rparr>"
            and s' = "abc_state\<lparr>compressed_context := ''ok''\<rparr>"
            and planner = two_subtask_plan and load_memory = no_history and merger = join_merger
            and ?w0.0 = empty_world and ?s0.0 = "initial_state ''t''"
            and ?w1.0 = "empty_world\<lparr>llm_calls :=
                           [compression_prompt [], compressed_prompt ''1'' ''ok'' [] ''a'',
                            compression_prompt [], compressed_prompt ''2'' ''ok'' [] ''b'',
                            compression_prompt []],
                           long_term_memory := [([], ''ok''), ([], ''ok''), ([], ''ok'')]\<rparr>"
            and ?s1.0 = "(initial_state ''t'')\<lparr>subtasks := [''a'', ''b''], step := ''completed'',
                           sub_results := [(''1'', ''ok''), (''2'', ''ok'')],
                           compressed_context := ''ok'', final_result := ''okok''\<rparr>"]
       c compressed_run_on_example
  show ?thesis
    by simp
qed

text \<open>
  The claim as stated fails on the usage example: the context is empty from the
  first node to the last, far below any threshold, and the compressor has run
  three times.
\<close>

theorem compressor_runs_below_threshold_counterexample:
  "saved_contexts
     (invoke (create_sequential_compressed_graph two_subtask_plan ok_llm no_history join_merger)
        (empty_world, initial_state ''t'')) = Some [[], [], []] \<and>
   length (context_str (initial_state ''t'')) \<le> 2000"
proof
  show "saved_contexts
     (invoke (create_sequential_compressed_graph two_subtask_plan ok_llm no_history join_merger)
        (empty_world, initial_state ''t'')) = Some [[], [], []]"
    by (simp add: compressed_run_on_example saved_contexts_def)
  show "length (context_str (initial_state ''t'')) \<le> 2000"
    by (simp add: initial_state_def)
qed

section \<open>A compressor that fails\<close>

text \<open>
  Claim C8, amended. A failure of the Context Compressor is fatal. When the model
  raises on the compression prompt, the compression node raises the same exception:
  there is no handler and no truncation of the context. A run that reaches such a
  node ends there with that exception, whatever nodes follow.
\<close>

theorem compressor_failure_ends_run:
  assumes reach: "invoke before c = Inr (w, s)"
    and fails: "llm (llm_calls w) (compression_prompt (context_str s)) = Inl e"
  shows "compress_context_node llm (w, s) = Inl e \<and>
         invoke (before @ compress_context_node llm # after) c = Inl e"
proof -
  have node: "compress_context_node llm (w, s) = Inl e"
    using fails by (simp add: compress_context_node_def chain_run_def)
  then show ?thesis
    using reach by (simp add: invoke_append)
qed

theorem compressor_failure_ends_run_witness:
  "invoke [break_task_node two_subtask_plan] (empty_world, initial_state ''t'') =
     Inr (empty_world,
          (initial_state ''t'')\<lparr>subtasks := [''a'', ''b''], step := ''planning_complete''\<rparr>) \<and>
   compressor_down_llm (llm_calls empty_world) (compression_prompt []) = Inl ModelError \<and>
   invoke ([break_task_node two_subtask_plan] @
           compress_context_node compressor_down_llm #
           [compressed_agent_node compressor_down_llm no_history ''1'',
            compress_context_node compressor_down_llm,
            compressed_agent_node compressor_down_llm no_history ''2'',
            compress_context_node compressor_down_llm,
            merge_compressed_node join_merger])
     (empty_world, initial_state ''t'') = Inl ModelError"
proof -
  have r: "invoke [break_task_node two_subtask_plan] (empty_world, initial_state ''t'') =
     Inr (empty_world,
          (initial_state ''t'')\<lparr>subtasks := [''a'', ''b''], step := ''planning_complete''\<rparr>)"
    by (simp add: break_task_node_def two_subtask_plan_def plan_of_def)
  have f: "compressor_down_llm (llm_calls empty_world)
             (compression_prompt (context_str
                ((initial_state ''t'')\<lparr>subtasks := [''a'', ''b''], step := ''planning_complete''\<rparr>))) =
           Inl ModelError"
    by (simp add: compressor_down_llm_def initial_state_def)
  from compressor_failure_ends_run
         [where before = "[break_task_node two_subtask_plan]"
            and c = "(empty_world, initial_state ''t'')" and w = empty_world
            and s = "(initial_state ''t'')\<lparr>subtasks := [''a'', ''b''],
                       step := ''planning_complete''\<rparr>"
            and llm = compressor_down_llm and e = ModelError
            and after = "[compressed_agent_node compressor_down_llm no_history ''1'',
                          compress_context_node compressor_down_llm,
                          compressed_agent_node compressor_down_llm no_history ''2'',
                          compress_context_node compressor_down_llm,
                          merge_compressed_node join_merger]"]
       r f
  show ?thesis
    by (simp add: initial_state_def)
qed

text \<open>
  The claim as stated fails on the compressed graph with a model that raises on the
  compression prompt and answers every other prompt: the run does not complete.
\<close>

theorem compressor_failure_counterexample:
  "invoke (create_sequential_compressed_graph two_subtask_plan compressor_down_llm no_history
             join_merger)
     (empty_world, initial_state ''t'') = Inl ModelError"
  by (simp add: create_sequential_compressed_graph_def break_task_node_def
        compress_context_node_def chain_run_def two_subtask_plan_def plan_of_def
        compressor_down_llm_def initial_state_def)

end
